theory Spec2Isabelle
  imports Complex_Main "HOL-Library.Word" "HOL-Library.Multiset"
begin

section \<open>Common types\<close>

text \<open>
  Exceptions of the Python code are values: a function that can raise returns
  \<open>error + 'a\<close>, with \<open>Inl\<close> for the exception.  \<open>HostedError\<close> stands for
  whatever the hosted client library raises (missing credential, network failure, \<dots>).
\<close>

datatype error =
    DoesNotExist
  | ValueError
  | TypeError
  | RuntimeError
  | UnicodeDecodeError
  | ImportError
  | AttributeError
  | HostedError string

type_synonym byte = "8 word"

section \<open>CVapp/services.py and the strategy selectors of the views\<close>

subsection \<open>Extraction strategy selection\<close>

text \<open>
  Python strings are sequences of code points; a \<open>char\<close> here is a code point below 256.
  \<open>str.lower\<close> maps \<open>A\<close>..\<open>Z\<close> and the upper-case letters of Latin-1 to their
  lower-case forms and leaves every other such code point alone.
\<close>

definition lower_char :: "char \<Rightarrow> char" where
  "lower_char c =
     (let n = of_char c :: nat
      in if (65 \<le> n \<and> n \<le> 90) \<or> (192 \<le> n \<and> n \<le> 222 \<and> n \<noteq> 215)
         then char_of (n + 32) else c)"

definition lower :: "string \<Rightarrow> string" where
  "lower s = map lower_char s"

text \<open>
  \<open>filename.rsplit(".", 1)\<close>: at most one split, at the last dot.  Without a dot the
  result is the one-element list holding the whole string.
\<close>

definition rsplit_dot_1 :: "string \<Rightarrow> string list" where
  "rsplit_dot_1 s =
     (if CHR ''.'' \<in> set s
      then [rev (tl (dropWhile (\<lambda>c. c \<noteq> CHR ''.'') (rev s))),
            rev (takeWhile (\<lambda>c. c \<noteq> CHR ''.'') (rev s))]
      else [s])"

datatype extraction_strategy = PdfExtractionStrategy | TextExtractionStrategy

text \<open>The same function is defined in \<open>CVapp/views.py\<close> and in \<open>offer/views.py\<close>.\<close>

definition get_extraction_strategy :: "string \<Rightarrow> extraction_strategy" where
  "get_extraction_strategy filename =
     (let ext = lower (last (rsplit_dot_1 filename))
      in if ext = ''pdf'' then PdfExtractionStrategy else TextExtractionStrategy)"

subsection \<open>Cosine similarity\<close>

text \<open>
  The control flow of \<open>cosine_similarity\<close> with the score idealised to a real number:
  exact arithmetic, no rounding, no underflow, no infinities and no NaN, so the value of
  a score is not that of the floating-point computation.  What the handlers below rely
  on is kept: \<open>np.dot\<close> of two one-dimensional arrays of different lengths raises
  \<open>ValueError\<close>, and the norms are computed first, so a zero denominator returns before
  the dot product is attempted.
\<close>

definition linalg_norm :: "real list \<Rightarrow> real" where
  "linalg_norm a = sqrt (\<Sum>x\<leftarrow>a. x * x)"

definition dot :: "real list \<Rightarrow> real list \<Rightarrow> error + real" where
  "dot a b =
     (if length a \<noteq> length b then Inl ValueError
      else Inr (\<Sum>(x, y)\<leftarrow>zip a b. x * y))"

definition cosine_similarity :: "real list \<Rightarrow> real list \<Rightarrow> error + real" where
  "cosine_similarity a b =
     (let denom = linalg_norm a * linalg_norm b
      in if denom = 0 then Inr 0
         else (case dot a b of Inl e \<Rightarrow> Inl e | Inr d \<Rightarrow> Inr (d / denom)))"

subsection \<open>Embeddings as byte blobs\<close>

text \<open>
  An array element is modelled by its bit pattern: a \<open>float32\<close> is a \<open>32 word\<close>, a
  \<open>float64\<close> a \<open>64 word\<close>.  \<open>tobytes\<close> lays the elements out one after the other,
  four or eight bytes each (least significant byte first); \<open>np.frombuffer\<close> with
  \<open>dtype=np.float32\<close> reads four bytes per element and raises \<open>ValueError\<close> when the
  buffer size is not a multiple of four.
\<close>

definition word_bytes :: "nat \<Rightarrow> 'a::len word \<Rightarrow> byte list" where
  "word_bytes n w = map (\<lambda>i. ucast (drop_bit (8 * i) w)) [0..<n]"

definition tobytes32 :: "32 word list \<Rightarrow> byte list" where
  "tobytes32 arr = concat (map (word_bytes 4) arr)"

definition tobytes64 :: "64 word list \<Rightarrow> byte list" where
  "tobytes64 arr = concat (map (word_bytes 8) arr)"

fun chunks4 :: "byte list \<Rightarrow> 32 word list" where
  "chunks4 (b0 # b1 # b2 # b3 # rest) =
     (ucast b0 + push_bit 8 (ucast b1) + push_bit 16 (ucast b2) + push_bit 24 (ucast b3))
       # chunks4 rest"
| "chunks4 _ = []"

definition frombuffer32 :: "byte list \<Rightarrow> error + 32 word list" where
  "frombuffer32 buf =
     (if length buf mod 4 \<noteq> 0 then Inl ValueError else Inr (chunks4 buf))"

text \<open>
  \<open>_default_embedding\<close> of \<open>CVapp/models.py\<close> and of \<open>offer/models.py\<close>:
  \<open>np.random.rand(1536).tobytes()\<close>.  \<open>np.random.rand\<close> returns an array of
  \<open>float64\<close>; the random source is the parameter \<open>rand\<close>, giving the bit pattern of
  the \<open>i\<close>-th sample.
\<close>

definition random_rand :: "(nat \<Rightarrow> 64 word) \<Rightarrow> nat \<Rightarrow> 64 word list" where
  "random_rand rand n = map rand [0..<n]"

definition default_embedding :: "(nat \<Rightarrow> 64 word) \<Rightarrow> byte list" where
  "default_embedding rand = tobytes64 (random_rand rand 1536)"

section \<open>notifications/services.py: the subject's observer list\<close>

text \<open>
  The only concrete observer class is \<open>NotificationModelObserver\<close>; it defines no
  \<open>__eq__\<close>, so \<open>list.remove\<close> compares by object identity, the \<open>nat\<close> here.
\<close>

datatype observer = NotificationModelObserver nat

definition register :: "observer list \<Rightarrow> observer \<Rightarrow> observer list" where
  "register observers obs = observers @ [obs]"

text \<open>\<open>list.remove(x)\<close> removes the first item equal to \<open>x\<close> and raises
  \<open>ValueError\<close> when there is none.\<close>

definition unregister :: "observer list \<Rightarrow> observer \<Rightarrow> error + observer list" where
  "unregister observers obs =
     (if obs \<in> set observers then Inr (remove1 obs observers) else Inl ValueError)"

section \<open>The stored records\<close>

text \<open>
  One record per model class, with the fields the handlers read or write; a foreign key
  is the primary key of the row it points to.  Field names carry the class's initial
  because record fields share one name space.  Creation timestamps are left out.
\<close>

record user =
  u_id :: nat
  u_username :: string
  u_role :: string

record vacancy =
  v_id :: nat
  v_title :: string
  v_description :: string
  v_requirements :: "string option"
  v_state :: string
  v_uploaded_by :: nat
  v_embedding :: "byte list"

record resume =
  r_id :: nat
  r_version :: string
  r_name :: string
  r_vacancy_text :: string
  r_extracted_text :: string
  r_upgraded_cv :: string
  r_uploaded_by :: nat
  r_embedding :: "byte list"
  r_image :: "string option"

record applied_resume =
  a_id :: nat
  a_resume :: nat
  a_vacancy :: nat
  a_match_rate :: real
  a_state :: string
  a_feedback :: "string option"

text \<open>
  Modelled from the spec: the \<open>Notification\<close> model class (\<open>notifications/models.py\<close>
  is not among the sources): owning user, message text, read flag defaulting to false.
\<close>

record notification =
  n_id :: nat
  n_user :: nat
  n_message :: string
  n_read :: bool

text \<open>
  The application state: the tables, each in primary-key order, and the observer list of
  the process-wide \<open>notification_subject\<close>.
\<close>

record app_state =
  users :: "user list"
  vacancies :: "vacancy list"
  resumes :: "resume list"
  applied_resumes :: "applied_resume list"
  notifications :: "notification list"
  subject_observers :: "observer list"

text \<open>The primary key given to a new row.\<close>

definition new_id :: "nat list \<Rightarrow> nat" where
  "new_id ids = Suc (fold max ids 0)"

text \<open>\<open>Model.objects.get(id=i)\<close> raises \<open>DoesNotExist\<close> when no row has the key.\<close>

definition get_user :: "app_state \<Rightarrow> nat \<Rightarrow> error + user" where
  "get_user s i =
     (case find (\<lambda>u. u_id u = i) (users s) of None \<Rightarrow> Inl DoesNotExist | Some u \<Rightarrow> Inr u)"

definition get_vacancy :: "app_state \<Rightarrow> nat \<Rightarrow> error + vacancy" where
  "get_vacancy s i =
     (case find (\<lambda>v. v_id v = i) (vacancies s) of None \<Rightarrow> Inl DoesNotExist | Some v \<Rightarrow> Inr v)"

definition get_resume :: "app_state \<Rightarrow> nat \<Rightarrow> error + resume" where
  "get_resume s i =
     (case find (\<lambda>r. r_id r = i) (resumes s) of None \<Rightarrow> Inl DoesNotExist | Some r \<Rightarrow> Inr r)"

definition get_applied_resume :: "app_state \<Rightarrow> nat \<Rightarrow> error + applied_resume" where
  "get_applied_resume s i =
     (case find (\<lambda>a. a_id a = i) (applied_resumes s) of
        None \<Rightarrow> Inl DoesNotExist | Some a \<Rightarrow> Inr a)"

text \<open>\<open>instance.save()\<close> on a loaded row writes all its fields back under its key.\<close>

definition save_vacancy :: "app_state \<Rightarrow> vacancy \<Rightarrow> app_state" where
  "save_vacancy s v =
     s\<lparr>vacancies := map (\<lambda>x. if v_id x = v_id v then v else x) (vacancies s)\<rparr>"

definition save_resume :: "app_state \<Rightarrow> resume \<Rightarrow> app_state" where
  "save_resume s r =
     s\<lparr>resumes := map (\<lambda>x. if r_id x = r_id r then r else x) (resumes s)\<rparr>"

definition save_applied_resume :: "app_state \<Rightarrow> applied_resume \<Rightarrow> app_state" where
  "save_applied_resume s a =
     s\<lparr>applied_resumes := map (\<lambda>x. if a_id x = a_id a then a else x) (applied_resumes s)\<rparr>"

section \<open>Requests, responses and the environment\<close>

text \<open>
  A submitted primary key arrives as text: absent, not a number (the ORM's \<open>filter\<close> and
  \<open>get\<close> then raise \<open>ValueError\<close>), or a number.
\<close>

datatype post_id = Missing | Malformed | Id int

record uploaded_file =
  f_name :: string
  f_content :: "byte list"

text \<open>
  \<open>FILES\<close> is the multi-valued dictionary of uploaded files, in submission order.
  \<open>form_is_valid\<close> and \<open>cleaned_data\<close> are the outcome of the framework's form
  validation (the form classes of \<open>CVapp\<close> are not among the sources).
\<close>

record request =
  session_user_id :: "nat option"
  request_method :: string
  GET_vacancy_id :: post_id
  POST_resume_id :: post_id
  POST_vacancy :: string
  FILES :: "(string \<times> uploaded_file) list"
  form_is_valid :: bool
  cleaned_data :: "string \<Rightarrow> string"

definition FILES_getlist :: "request \<Rightarrow> string \<Rightarrow> uploaded_file list" where
  "FILES_getlist request key = map snd (filter (\<lambda>kv. fst kv = key) (FILES request))"

definition FILES_get :: "request \<Rightarrow> string \<Rightarrow> uploaded_file option" where
  "FILES_get request key =
     (case FILES_getlist request key of [] \<Rightarrow> None | f # fs \<Rightarrow> Some (last (f # fs)))"

datatype level = Success | Warning | Error

type_synonym message = "level \<times> string"

record entry =
  e_filename :: string
  e_cv_text :: string
  e_score :: real

text \<open>
  A response is a redirect to a named route, a rendered template, the ranking page with
  its \<open>ranking\<close> and \<open>best_cv\<close>, or a generated attachment (file name and text).
\<close>

datatype response =
    Redirect string
  | Render string
  | RenderMatching "entry list" "entry option"
  | Attachment string string

text \<open>
  What a handler leaves behind: the response or the exception that escaped, the state
  (writes made before an exception stay), and the messages it queued.
\<close>

type_synonym result = "(error + response) \<times> app_state \<times> message list"

datatype embedding_service = OpenAIEmbeddingService | MockEmbeddingService nat

text \<open>
  Everything outside the repository: the configured credential, whether the hosted
  client library and the PDF library can be imported, the hosted calls (each returns or
  raises), Python's string hash, the seeded generator (\<open>rng_random env seed i\<close> is the
  \<open>i\<close>-th sample), UTF-8 decoding, and the real value of a \<open>float32\<close> bit pattern.
  \<open>chat_completion\<close> is the body of the \<open>try\<close> in \<open>mejorar_cv\<close> up to the
  message content, \<open>prompt_instructions\<close> the fixed instruction text of its prompt.
  \<open>docx_add_paragraph\<close> and \<open>pdf_draw\<close> are the outcomes of the Word and PDF
  libraries on a text: each accepts it or raises.
\<close>

record env =
  OPENAI_API_KEY :: "string option"
  openai_installed :: bool
  embeddings_create :: "string \<Rightarrow> error + 32 word list"
  chat_completion :: "string \<Rightarrow> error + string"
  prompt_instructions :: string
  hash :: "string \<Rightarrow> int"
  rng_random :: "nat \<Rightarrow> nat \<Rightarrow> 32 word"
  pdf_reader :: "(byte list \<Rightarrow> error + string option list) option"
  utf8_decode :: "byte list \<Rightarrow> error + string"
  float32 :: "32 word \<Rightarrow> real"
  docx_add_paragraph :: "string \<Rightarrow> error + unit"
  pdf_draw :: "string \<Rightarrow> error + unit"

text \<open>
  The module-level choice of \<open>_embedding_service\<close>: the hosted service when a
  credential is set and its client can be constructed, the mock (dimension 1536)
  otherwise.
\<close>

definition embedding_service_of :: "env \<Rightarrow> embedding_service" where
  "embedding_service_of env =
     (case OPENAI_API_KEY env of
        None \<Rightarrow> MockEmbeddingService 1536
      | Some key \<Rightarrow>
          if key \<noteq> [] \<and> openai_installed env then OpenAIEmbeddingService
          else MockEmbeddingService 1536)"

fun service_embed :: "env \<Rightarrow> embedding_service \<Rightarrow> string \<Rightarrow> error + 32 word list" where
  "service_embed env OpenAIEmbeddingService text = embeddings_create env text"
| "service_embed env (MockEmbeddingService dimension) text =
     Inr (map (rng_random env (nat (\<bar>hash env text\<bar> mod 2 ^ 32))) [0..<dimension])"

definition embed :: "env \<Rightarrow> string \<Rightarrow> error + 32 word list" where
  "embed env text = service_embed env (embedding_service_of env) text"

fun strategy_extract :: "env \<Rightarrow> extraction_strategy \<Rightarrow> uploaded_file \<Rightarrow> error + string" where
  "strategy_extract env PdfExtractionStrategy file =
     (case pdf_reader env of
        None \<Rightarrow> Inl RuntimeError
      | Some reader \<Rightarrow>
          (case reader (f_content file) of
             Inl e \<Rightarrow> Inl e
           | Inr pages \<Rightarrow> Inr (concat (map (\<lambda>p. case p of None \<Rightarrow> [] | Some t \<Rightarrow> t) pages))))"
| "strategy_extract env TextExtractionStrategy file = utf8_decode env (f_content file)"

text \<open>\<open>str.strip()\<close>: white space is removed from both ends.\<close>

definition is_space :: "char \<Rightarrow> bool" where
  "is_space c =
     (let n = of_char c :: nat
      in (9 \<le> n \<and> n \<le> 13) \<or> (28 \<le> n \<and> n \<le> 32) \<or> n = 133 \<or> n = 160)"

definition strip :: "string \<Rightarrow> string" where
  "strip s = rev (dropWhile is_space (rev (dropWhile is_space s)))"

section \<open>CVapp/views.py\<close>

text \<open>
  In the message texts a letter outside ASCII is written by its code point:
  \<open>CHR 0xE9\<close> is e with acute accent, \<open>CHR 0xE1\<close> a with acute accent,
  \<open>CHR 0xFA\<close> u with acute accent, \<open>CHR 0xA1\<close> the inverted exclamation mark,
  \<open>CHR 0x27\<close> the apostrophe and \<open>CHR 0x0A\<close> the line feed.
\<close>

text \<open>The tail of \<open>uploadCV\<close>: embed the text, create the \<open>Resume\<close>, report success.\<close>

definition uploadCV_create ::
  "env \<Rightarrow> request \<Rightarrow> user \<Rightarrow> string \<Rightarrow> string \<Rightarrow> app_state \<Rightarrow> result" where
  "uploadCV_create env request user name extracted_text s =
     (case embed env extracted_text of
        Inl e \<Rightarrow> (Inl e, s, [])
      | Inr vec \<Rightarrow>
          (Inr (Render ''JobseekerPage.html''),
           s\<lparr>resumes := resumes s @
              [\<lparr>r_id = new_id (map r_id (resumes s)),
                r_version = ''1.0'',
                r_name = name,
                r_vacancy_text = cleaned_data request ''vacancy'',
                r_extracted_text = extracted_text,
                r_upgraded_cv = [],
                r_uploaded_by = u_id user,
                r_embedding = tobytes32 vec,
                r_image = map_option f_name (FILES_get request ''image'')\<rparr>]\<rparr>,
           [(Success, ''CV subido y procesado con '' @ CHR 0xE9 # ''xito'')]))"

text \<open>\<open>if uploaded_file\<close>: an uploaded file object is true when its name is not empty.\<close>

definition if_file :: "uploaded_file option \<Rightarrow> uploaded_file option" where
  "if_file f = (case f of None \<Rightarrow> None | Some x \<Rightarrow> if f_name x \<noteq> [] then Some x else None)"

definition uploadCV :: "env \<Rightarrow> request \<Rightarrow> app_state \<Rightarrow> result" where
  "uploadCV env request s =
     (case session_user_id request of
        None \<Rightarrow> (Inr (Redirect ''login''), s, [])
      | Some uid \<Rightarrow>
     (case get_user s uid of
        Inl e \<Rightarrow> (Inl e, s, [])
      | Inr user \<Rightarrow>
          if GET_vacancy_id request = Malformed then (Inl ValueError, s, [])
          else if request_method request = ''POST'' then
            (if form_is_valid request then
               (case if_file (FILES_get request ''file'') of
                  Some uploaded_file \<Rightarrow>
                    (case strategy_extract env (get_extraction_strategy (f_name uploaded_file))
                            uploaded_file of
                       Inl e \<Rightarrow> (Inl e, s, [])
                     | Inr extracted_text \<Rightarrow>
                         uploadCV_create env request user (f_name uploaded_file)
                           extracted_text s)
                | None \<Rightarrow>
                    if strip (cleaned_data request ''cv_text'') \<noteq> [] then
                      uploadCV_create env request user ''Manual Entry''
                        (cleaned_data request ''cv_text'') s
                    else (Inr (Render ''JobseekerPage.html''), s,
                          [(Warning, ''No hay un CV inicial'')]))
             else (Inr (Render ''JobseekerPage.html''), s,
                   [(Error, ''Formulario no v'' @ CHR 0xE1 # ''lido'')]))
          else (Inr (Render ''JobseekerPage.html''), s, [])))"

definition build_prompt :: "env \<Rightarrow> string \<Rightarrow> string \<Rightarrow> string" where
  "build_prompt env vacancy_text cv_text =
     ''VACANTE:'' @ CHR 0x0A # vacancy_text @ [CHR 0x0A, CHR 0x0A]
     @ ''CV ACTUAL:'' @ CHR 0x0A # cv_text @ [CHR 0x0A, CHR 0x0A]
     @ prompt_instructions env"

text \<open>
  \<open>mejorar_cv\<close>.  \<open>filter(uploaded_by=user).last()\<close> is the user's row with the
  greatest key.  Every exception of the hosted call is caught by \<open>except Exception\<close>;
  nothing catches an exception of the download helpers.
\<close>

definition hosted_rewrite :: "env \<Rightarrow> string \<Rightarrow> string \<Rightarrow> string \<times> message list" where
  "hosted_rewrite env prompt cv_text =
     (case chat_completion env prompt of
        Inr content \<Rightarrow> (strip content, [])
      | Inl e \<Rightarrow>
          (cv_text,
           [(Warning, ''No se pudo acceder al servicio de IA, se mostrar'' @ CHR 0xE1
                        # '' el CV original.'')]))"

text \<open>
  The helpers that generate the download.  Each builds the file with its library and
  wraps it in an attachment; an exception of the library is not caught.  The layout of
  the PDF (headings, bullets, wrapping, page breaks) is not modelled.  Encoding the text
  as UTF-8 cannot fail for the code points modelled here.
\<close>

definition generate_docx_response :: "env \<Rightarrow> string \<Rightarrow> error + response" where
  "generate_docx_response env text =
     (case docx_add_paragraph env text of
        Inl e \<Rightarrow> Inl e
      | Inr _ \<Rightarrow> Inr (Attachment ''mejorado_cv.docx'' text))"

definition generate_pdf_response :: "env \<Rightarrow> string \<Rightarrow> error + response" where
  "generate_pdf_response env text =
     (case pdf_draw env text of
        Inl e \<Rightarrow> Inl e
      | Inr _ \<Rightarrow> Inr (Attachment ''mejorado_cv.pdf'' text))"

definition generate_txt_response :: "string \<Rightarrow> error + response" where
  "generate_txt_response text = Inr (Attachment ''mejorado_cv.txt'' text)"

text \<open>The end of \<open>mejorar_cv\<close>, after the upgraded text is saved.\<close>

definition respond_improved :: "env \<Rightarrow> request \<Rightarrow> string \<Rightarrow> error + response" where
  "respond_improved env request upgraded_cv =
     (if request_method request = ''POST'' then
        (if form_is_valid request then
           (let format_selected = cleaned_data request ''outputFormat''
            in if format_selected = ''pdf'' then generate_pdf_response env upgraded_cv
               else if format_selected = ''docx'' then generate_docx_response env upgraded_cv
               else if format_selected = ''txt'' then generate_txt_response upgraded_cv
               else Inr (Render ''jobseekerPage.html''))
         else Inr (Render ''jobseekerPage.html''))
      else Inr (Render ''jobseekerPage.html''))"

definition mejorar_cv :: "env \<Rightarrow> request \<Rightarrow> app_state \<Rightarrow> result" where
  "mejorar_cv env request s =
     (case session_user_id request of
        None \<Rightarrow> (Inr (Redirect ''login''), s, [])
      | Some uid \<Rightarrow>
     (case get_user s uid of
        Inl e \<Rightarrow> (Inl e, s, [])
      | Inr user \<Rightarrow>
     (case filter (\<lambda>r. r_uploaded_by r = u_id user) (resumes s) of
        [] \<Rightarrow> (Inr (Redirect ''upload_cv''), s,
               [(Error, ''No has subido un CV a'' @ CHR 0xFA # ''n.'')])
      | r # rs \<Rightarrow>
          (let resume = last (r # rs);
               cv_text = r_extracted_text resume;
               prompt = build_prompt env (r_vacancy_text resume) cv_text;
               (new_cv, msgs) = hosted_rewrite env prompt cv_text;
               s' = save_resume s (resume\<lparr>r_upgraded_cv := new_cv\<rparr>)
           in (respond_improved env request new_cv, s', msgs)))))"

text \<open>
  \<open>apply_vacancy\<close>.  The two embeddings are taken from the stored blobs, or computed
  and written back when a blob is empty; a vacancy without requirements makes the
  string concatenation of the second computation raise \<open>TypeError\<close>.
\<close>

definition resume_emb_of ::
  "env \<Rightarrow> resume \<Rightarrow> app_state \<Rightarrow> error + 32 word list \<times> app_state" where
  "resume_emb_of env resume s =
     (if r_embedding resume \<noteq> [] then
        (case frombuffer32 (r_embedding resume) of
           Inl e \<Rightarrow> Inl e
         | Inr resume_emb \<Rightarrow> Inr (resume_emb, s))
      else
        (case embed env (r_extracted_text resume) of
           Inl e \<Rightarrow> Inl e
         | Inr resume_emb \<Rightarrow>
             Inr (resume_emb, save_resume s (resume\<lparr>r_embedding := tobytes32 resume_emb\<rparr>))))"

definition vacancy_emb_of ::
  "env \<Rightarrow> vacancy \<Rightarrow> app_state \<Rightarrow> error + 32 word list \<times> app_state" where
  "vacancy_emb_of env vacancy s =
     (if v_embedding vacancy \<noteq> [] then
        (case frombuffer32 (v_embedding vacancy) of
           Inl e \<Rightarrow> Inl e
         | Inr vacancy_emb \<Rightarrow> Inr (vacancy_emb, s))
      else
        (case v_requirements vacancy of
           None \<Rightarrow> Inl TypeError
         | Some requirements \<Rightarrow>
             (case embed env (v_description vacancy @ '' '' @ requirements) of
                Inl e \<Rightarrow> Inl e
              | Inr vacancy_emb \<Rightarrow>
                  Inr (vacancy_emb,
                       save_vacancy s (vacancy\<lparr>v_embedding := tobytes32 vacancy_emb\<rparr>)))))"

definition create_application :: "resume \<Rightarrow> vacancy \<Rightarrow> real \<Rightarrow> app_state \<Rightarrow> result" where
  "create_application resume vacancy match s =
     (if filter (\<lambda>a. a_resume a = r_id resume \<and> a_vacancy a = v_id vacancy)
           (applied_resumes s) \<noteq> []
      then (Inr (Redirect ''feed''), s,
            [(Warning, ''Ya has aplicado a esta vacante con este CV'')])
      else (Inr (Redirect ''feed''),
            s\<lparr>applied_resumes := applied_resumes s @
               [\<lparr>a_id = new_id (map a_id (applied_resumes s)),
                 a_resume = r_id resume,
                 a_vacancy = v_id vacancy,
                 a_match_rate = match,
                 a_state = ''applied'',
                 a_feedback = None\<rparr>]\<rparr>,
            [(Success, ''Has aplicado a la vacante con '' @ CHR 0xE9 # ''xito'')]))"

definition apply_selected :: "env \<Rightarrow> resume \<Rightarrow> vacancy \<Rightarrow> app_state \<Rightarrow> result" where
  "apply_selected env resume vacancy s =
     (case resume_emb_of env resume s of
        Inl e \<Rightarrow> (Inl e, s, [])
      | Inr (resume_emb, s1) \<Rightarrow>
     (case vacancy_emb_of env vacancy s1 of
        Inl e \<Rightarrow> (Inl e, s1, [])
      | Inr (vacancy_emb, s2) \<Rightarrow>
     (case cosine_similarity (map (float32 env) resume_emb) (map (float32 env) vacancy_emb) of
        Inl e \<Rightarrow> (Inl e, s2, [])
      | Inr match \<Rightarrow> create_application resume vacancy match s2)))"

definition apply_vacancy :: "env \<Rightarrow> request \<Rightarrow> nat \<Rightarrow> app_state \<Rightarrow> result" where
  "apply_vacancy env request vacancy_id s =
     (case session_user_id request of
        None \<Rightarrow> (Inr (Redirect ''login''), s, [])
      | Some uid \<Rightarrow>
     (case get_user s uid of
        Inl e \<Rightarrow> (Inl e, s, [])
      | Inr user \<Rightarrow>
     (case get_vacancy s vacancy_id of
        Inl e \<Rightarrow> (Inl e, s, [])
      | Inr vacancy \<Rightarrow>
          if filter (\<lambda>r. r_uploaded_by r = u_id user) (resumes s) = [] then
            (Inr (Redirect ''upload_cv''), s, [(Warning, ''No tienes un CV subido'')])
          else if request_method request = ''POST'' then
            (case POST_resume_id request of
               Malformed \<Rightarrow> (Inl ValueError, s, [])
             | Missing \<Rightarrow>
                 (Inr (Redirect ''apply''), s,
                  [(Error, ''Debes seleccionar un CV v'' @ CHR 0xE1 # ''lido.'')])
             | Id selected_resume_id \<Rightarrow>
                 (case find (\<lambda>r. int (r_id r) = selected_resume_id)
                         (filter (\<lambda>r. r_uploaded_by r = u_id user) (resumes s)) of
                    None \<Rightarrow>
                      (Inr (Redirect ''apply''), s,
                       [(Error, ''Debes seleccionar un CV v'' @ CHR 0xE1 # ''lido.'')])
                  | Some resume \<Rightarrow> apply_selected env resume vacancy s))
          else (Inr (Render ''select_resume.html''), s, []))))"

text \<open>\<open>delete_cv\<close>: \<open>Resume.objects.get(id=cv_id, uploaded_by=user)\<close>, then the guard.\<close>

definition delete_cv :: "request \<Rightarrow> nat \<Rightarrow> app_state \<Rightarrow> result" where
  "delete_cv request cv_id s =
     (case session_user_id request of
        None \<Rightarrow> (Inr (Redirect ''login''), s, [])
      | Some uid \<Rightarrow>
     (case get_user s uid of
        Inl e \<Rightarrow> (Inl e, s, [])
      | Inr user \<Rightarrow>
     (case find (\<lambda>r. r_id r = cv_id \<and> r_uploaded_by r = u_id user) (resumes s) of
        None \<Rightarrow> (Inl DoesNotExist, s, [])
      | Some resume \<Rightarrow>
          if filter (\<lambda>a. a_resume a = r_id resume) (applied_resumes s) \<noteq> [] then
            (Inr (Redirect ''history''), s,
             [(Warning, ''No puedes eliminar un CV que ya has usado para aplicar a una vacante'')])
          else
            (Inr (Redirect ''history''),
             s\<lparr>resumes := filter (\<lambda>r. r_id r \<noteq> r_id resume) (resumes s)\<rparr>,
             [(Success, ''CV eliminado con '' @ CHR 0xE9 # ''xito'')]))))"

section \<open>notifications/services.py: delivery\<close>

text \<open>\<open>NotificationModelObserver.notify\<close> creates one \<open>Notification\<close> row.\<close>

fun observer_notify :: "observer \<Rightarrow> user \<Rightarrow> string \<Rightarrow> app_state \<Rightarrow> app_state" where
  "observer_notify (NotificationModelObserver _) user message s =
     s\<lparr>notifications := notifications s @
        [\<lparr>n_id = new_id (map n_id (notifications s)),
          n_user = u_id user,
          n_message = message,
          n_read = False\<rparr>]\<rparr>"

text \<open>\<open>NotificationSubject.notify\<close> calls every registered observer in order.\<close>

definition notify :: "user \<Rightarrow> string \<Rightarrow> app_state \<Rightarrow> app_state" where
  "notify user message s =
     fold (\<lambda>observer. observer_notify observer user message) (subject_observers s) s"

section \<open>offer/views.py\<close>

text \<open>
  The loop of \<open>uploadCVS\<close> over the uploaded files.  \<open>file_entry\<close> is the part of
  the body that computes the entry of one file, \<open>update_best\<close> the conditional that
  follows it, on the variables \<open>best_cv\<close> and \<open>best_score\<close>.
\<close>

definition file_entry :: "env \<Rightarrow> 32 word list \<Rightarrow> uploaded_file \<Rightarrow> error + entry" where
  "file_entry env vacancy_embedding uploaded_file =
     (case strategy_extract env (get_extraction_strategy (f_name uploaded_file)) uploaded_file of
        Inl e \<Rightarrow> Inl e
      | Inr text \<Rightarrow>
     (case embed env text of
        Inl e \<Rightarrow> Inl e
      | Inr cv_embedding \<Rightarrow>
     (case cosine_similarity (map (float32 env) vacancy_embedding)
             (map (float32 env) cv_embedding) of
        Inl e \<Rightarrow> Inl e
      | Inr sc \<Rightarrow> Inr \<lparr>e_filename = f_name uploaded_file, e_cv_text = text, e_score = sc\<rparr>)))"

fun update_best :: "entry \<Rightarrow> entry option \<times> real \<Rightarrow> entry option \<times> real" where
  "update_best item (best_cv, best_score) =
     (if e_score item > best_score then (Some item, e_score item) else (best_cv, best_score))"

fun rank_files ::
  "env \<Rightarrow> 32 word list \<Rightarrow> uploaded_file list \<Rightarrow> entry list \<Rightarrow> entry option \<times> real
     \<Rightarrow> error + entry list \<times> entry option \<times> real" where
  "rank_files env vacancy_embedding [] ranking best = Inr (ranking, best)"
| "rank_files env vacancy_embedding (uploaded_file # files) ranking best =
     (case file_entry env vacancy_embedding uploaded_file of
        Inl e \<Rightarrow> Inl e
      | Inr item \<Rightarrow>
          rank_files env vacancy_embedding files (ranking @ [item]) (update_best item best))"

text \<open>
  \<open>ranking.sort(key=lambda x: x["score"], reverse=True)\<close>: a stable sort in descending
  order of the score, that is a stable ascending sort on the negated score.
\<close>

definition sort_ranking :: "entry list \<Rightarrow> entry list" where
  "sort_ranking ranking = sort_key (\<lambda>x. - e_score x) ranking"

definition uploadCVS :: "env \<Rightarrow> request \<Rightarrow> app_state \<Rightarrow> result" where
  "uploadCVS env request s =
     (case session_user_id request of
        None \<Rightarrow> (Inr (Redirect ''login''), s, [])
      | Some uid \<Rightarrow>
     (case get_user s uid of
        Inl e \<Rightarrow> (Inl e, s, [])
      | Inr user \<Rightarrow>
          if request_method request = ''POST'' then
            (if form_is_valid request \<and> FILES request \<noteq> [] then
               (if strip (POST_vacancy request) = [] then
                  (Inr (Render ''matchingPage.html''), s,
                   [(Warning, ''No hay un texto de vacante proporcionado.'')])
                else if FILES_getlist request ''file'' = [] then
                  (Inr (Render ''matchingPage.html''), s,
                   [(Warning, ''No se seleccionaron archivos.'')])
                else
                  (case embed env (POST_vacancy request) of
                     Inl e \<Rightarrow> (Inl e, s, [])
                   | Inr vacancy_embedding \<Rightarrow>
                  (case rank_files env vacancy_embedding (FILES_getlist request ''file'')
                          [] (None, - 1) of
                     Inl e \<Rightarrow> (Inl e, s, [])
                   | Inr (ranking, best_cv, best_score) \<Rightarrow>
                       (Inr (RenderMatching (sort_ranking ranking) best_cv), s,
                        [(Success, ''Todos los archivos fueron procesados correctamente.'')]))))
             else (Inr (Render ''matchingPage.html''), s,
                   [(Warning, ''Error en la carga del formulario.'')]))
          else (Inr (Render ''matchingPage.html''), s, [])))"

text \<open>\<open>upload_vacancies\<close>: the new row gets the model's default state \<open>open\<close>.\<close>

definition upload_vacancies :: "env \<Rightarrow> request \<Rightarrow> app_state \<Rightarrow> result" where
  "upload_vacancies env request s =
     (case session_user_id request of
        None \<Rightarrow> (Inr (Redirect ''login''), s, [])
      | Some uid \<Rightarrow>
     (case get_user s uid of
        Inl e \<Rightarrow> (Inl e, s, [])
      | Inr user \<Rightarrow>
          if request_method request = ''POST'' then
            (if form_is_valid request then
               (let title = cleaned_data request ''title'';
                    description = cleaned_data request ''description'';
                    requirements = cleaned_data request ''requirements'';
                    extracted_text = strip (description @ '' '' @ requirements)
                in case embed env extracted_text of
                     Inl e \<Rightarrow> (Inl e, s, [])
                   | Inr vec \<Rightarrow>
                       (Inr (Redirect ''history''),
                        s\<lparr>vacancies := vacancies s @
                           [\<lparr>v_id = new_id (map v_id (vacancies s)),
                             v_title = title,
                             v_description = description,
                             v_requirements = Some requirements,
                             v_state = ''open'',
                             v_uploaded_by = u_id user,
                             v_embedding = tobytes32 vec\<rparr>]\<rparr>,
                        [(Success, ''Vacante subida con '' @ CHR 0xE9 # ''xito.'')]))
             else (Inr (Render ''offer.html''), s,
                   [(Warning, ''Error al subir la vacante.'')]))
          else (Inr (Render ''offer.html''), s, [])))"

text \<open>
  \<open>change_state_vacancy\<close>.  The session's user is not loaded; \<open>vacancy.uploaded_by.id\<close>
  loads the owner's row.
\<close>

definition change_state_vacancy :: "request \<Rightarrow> nat \<Rightarrow> app_state \<Rightarrow> result" where
  "change_state_vacancy request vacancy_id s =
     (case session_user_id request of
        None \<Rightarrow> (Inr (Redirect ''login''), s, [])
      | Some uid \<Rightarrow>
     (case get_vacancy s vacancy_id of
        Inl e \<Rightarrow> (Inl e, s, [])
      | Inr vacancy \<Rightarrow>
     (case get_user s (v_uploaded_by vacancy) of
        Inl e \<Rightarrow> (Inl e, s, [])
      | Inr owner \<Rightarrow>
          if u_id owner \<noteq> uid then
            (Inr (Redirect ''history''), s,
             [(Error, ''No tienes permiso para cambiar el estado de esta vacante.'')])
          else if v_state vacancy = ''open'' then
            (Inr (Redirect ''history''), save_vacancy s (vacancy\<lparr>v_state := ''closed''\<rparr>),
             [(Success, ''Vacante cerrada con '' @ CHR 0xE9 # ''xito.'')])
          else if v_state vacancy = ''closed'' then
            (Inr (Redirect ''history''), save_vacancy s (vacancy\<lparr>v_state := ''open''\<rparr>),
             [(Success, ''Vacante abierta con '' @ CHR 0xE9 # ''xito.'')])
          else (Inr (Redirect ''history''), s, []))))"

text \<open>
  The toggle in the specification's words, to compare the handler with: \<open>open\<close>
  becomes \<open>closed\<close>, \<open>closed\<close> becomes \<open>open\<close>, any other value stays.
\<close>

definition toggled :: "string \<Rightarrow> string" where
  "toggled st = (if st = ''open'' then ''closed'' else if st = ''closed'' then ''open'' else st)"

text \<open>The owner's toggle request sent \<open>n\<close> times in a row.\<close>

fun toggle_times :: "nat \<Rightarrow> request \<Rightarrow> nat \<Rightarrow> app_state \<Rightarrow> app_state" where
  "toggle_times 0 request vacancy_id s = s"
| "toggle_times (Suc n) request vacancy_id s =
     toggle_times n request vacancy_id (fst (snd (change_state_vacancy request vacancy_id s)))"

text \<open>
  \<open>accept_resume\<close> and \<open>reject_resume\<close>.  After the state is saved, the applicant is
  loaded through \<open>resume.resume.uploaded_by\<close> and the subject is notified.
\<close>

definition decide_and_notify ::
  "applied_resume \<Rightarrow> string \<Rightarrow> string \<Rightarrow> message \<Rightarrow> app_state \<Rightarrow> result" where
  "decide_and_notify application new_state text done s =
     (let s1 = save_applied_resume s (application\<lparr>a_state := new_state\<rparr>)
      in case get_resume s1 (a_resume application) of
           Inl e \<Rightarrow> (Inl e, s1, [])
         | Inr cv \<Rightarrow>
        (case get_user s1 (r_uploaded_by cv) of
           Inl e \<Rightarrow> (Inl e, s1, [])
         | Inr applicant \<Rightarrow> (Inr (Redirect ''history''), notify applicant text s1, [done])))"

definition accept_resume :: "request \<Rightarrow> nat \<Rightarrow> app_state \<Rightarrow> result" where
  "accept_resume request resume_id s =
     (case session_user_id request of
        None \<Rightarrow> (Inr (Redirect ''login''), s, [])
      | Some uid \<Rightarrow>
     (case get_user s uid of
        Inl e \<Rightarrow> (Inl e, s, [])
      | Inr user \<Rightarrow>
     (case get_applied_resume s resume_id of
        Inl e \<Rightarrow> (Inl e, s, [])
      | Inr resume \<Rightarrow>
     (case get_vacancy s (a_vacancy resume) of
        Inl e \<Rightarrow> (Inl e, s, [])
      | Inr vacancy \<Rightarrow>
     (case get_user s (v_uploaded_by vacancy) of
        Inl e \<Rightarrow> (Inl e, s, [])
      | Inr owner \<Rightarrow>
          if u_id owner \<noteq> u_id user then
            (Inr (Redirect ''history''), s,
             [(Error, ''No tienes permiso para aceptar este CV.'')])
          else if a_state resume \<noteq> ''applied'' then
            (Inr (Redirect ''history''), s, [(Error, ''Este CV ya ha sido procesado.'')])
          else
            decide_and_notify resume ''accepted''
              (''Tu CV para la vacante '' @ CHR 0x27 # v_title vacancy @ CHR 0x27
                 # '' ha sido aceptado. Nos pondremos en contacto contigo pronto.'')
              (Success, ''CV aceptado con '' @ CHR 0xE9 # ''xito.'') s)))))"

definition reject_resume :: "request \<Rightarrow> nat \<Rightarrow> app_state \<Rightarrow> result" where
  "reject_resume request resume_id s =
     (case session_user_id request of
        None \<Rightarrow> (Inr (Redirect ''login''), s, [])
      | Some uid \<Rightarrow>
     (case get_user s uid of
        Inl e \<Rightarrow> (Inl e, s, [])
      | Inr user \<Rightarrow>
     (case get_applied_resume s resume_id of
        Inl e \<Rightarrow> (Inl e, s, [])
      | Inr resume \<Rightarrow>
     (case get_vacancy s (a_vacancy resume) of
        Inl e \<Rightarrow> (Inl e, s, [])
      | Inr vacancy \<Rightarrow>
     (case get_user s (v_uploaded_by vacancy) of
        Inl e \<Rightarrow> (Inl e, s, [])
      | Inr owner \<Rightarrow>
          if u_id owner \<noteq> u_id user then
            (Inr (Redirect ''history''), s,
             [(Error, ''No tienes permiso para rechazar este CV.'')])
          else if a_state resume \<noteq> ''applied'' then
            (Inr (Redirect ''history''), s, [(Error, ''Este CV ya ha sido procesado.'')])
          else
            decide_and_notify resume ''rejected''
              (''Tu CV para la vacante '' @ CHR 0x27 # v_title vacancy @ CHR 0x27
                 # '' ha sido rechazado. '' @ CHR 0xA1 # ''Gracias por participar!'')
              (Success, ''CV rechazado con '' @ CHR 0xE9 # ''xito.'') s)))))"

section \<open>Reachable states\<close>

text \<open>
  The states the exposed handlers can produce from a store without resumes and
  vacancies.  The handlers that write the \<open>Resume\<close> or the \<open>Vacancy\<close> table are
  \<open>uploadCV\<close>, \<open>mejorar_cv\<close>, \<open>apply_vacancy\<close>, \<open>delete_cv\<close>,
  \<open>upload_vacancies\<close> and \<open>change_state_vacancy\<close>; a write made before an
  exception escapes stays, so every outcome of a handler is a step.  The last rule
  stands for all other handlers (sign-up, login, logout, bookmarks, notifications,
  the read-only pages): they write neither table.
\<close>

inductive reachable :: "env \<Rightarrow> app_state \<Rightarrow> bool" for env :: env where
  initial: "resumes s = [] \<Longrightarrow> vacancies s = [] \<Longrightarrow> reachable env s"
| step_uploadCV:
    "reachable env s \<Longrightarrow> reachable env (fst (snd (uploadCV env request s)))"
| step_mejorar_cv:
    "reachable env s \<Longrightarrow> reachable env (fst (snd (mejorar_cv env request s)))"
| step_apply_vacancy:
    "reachable env s \<Longrightarrow> reachable env (fst (snd (apply_vacancy env request vacancy_id s)))"
| step_delete_cv:
    "reachable env s \<Longrightarrow> reachable env (fst (snd (delete_cv request cv_id s)))"
| step_upload_vacancies:
    "reachable env s \<Longrightarrow> reachable env (fst (snd (upload_vacancies env request s)))"
| step_change_state_vacancy:
    "reachable env s \<Longrightarrow>
       reachable env (fst (snd (change_state_vacancy request vacancy_id s)))"
| step_accept_resume:
    "reachable env s \<Longrightarrow> reachable env (fst (snd (accept_resume request resume_id s)))"
| step_reject_resume:
    "reachable env s \<Longrightarrow> reachable env (fst (snd (reject_resume request resume_id s)))"
| step_other:
    "reachable env s \<Longrightarrow> resumes s' = resumes s \<Longrightarrow> vacancies s' = vacancies s
       \<Longrightarrow> reachable env s'"

text \<open>The invariant: no stored embedding blob is empty.\<close>

definition embeddings_present :: "app_state \<Rightarrow> bool" where
  "embeddings_present s \<longleftrightarrow>
     list_all (\<lambda>r. r_embedding r \<noteq> []) (resumes s)
     \<and> list_all (\<lambda>v. v_embedding v \<noteq> []) (vacancies s)"

section \<open>Sample data\<close>

text \<open>
  A small installation used to instantiate the theorems: a recruiter who posted one open
  vacancy, a job seeker who uploaded one resume, no credential for the hosted
  services (so the mock embedding service is selected and the hosted chat call raises),
  and one registered observer.
\<close>

text \<open>
  The Word library hands the text to an XML writer that raises \<open>ValueError\<close> for a
  NUL or a control character other than tab, line feed and carriage return.
\<close>

definition xml_control :: "char \<Rightarrow> bool" where
  "xml_control c \<longleftrightarrow>
     (of_char c :: nat) < 32 \<and> c \<noteq> CHR 0x09 \<and> c \<noteq> CHR 0x0A \<and> c \<noteq> CHR 0x0D"

definition sample_env :: env where
  "sample_env =
     \<lparr>OPENAI_API_KEY = None,
      openai_installed = False,
      embeddings_create = (\<lambda>_. Inl ImportError),
      chat_completion = (\<lambda>_. Inl ImportError),
      prompt_instructions = ''Eres un experto'',
      hash = (\<lambda>t. int (length t)),
      rng_random = (\<lambda>seed i. 1),
      pdf_reader = None,
      utf8_decode = (\<lambda>bs. Inr (map (\<lambda>b. char_of (unat b)) bs)),
      float32 = (\<lambda>_. 1),
      docx_add_paragraph =
        (\<lambda>t. if list_ex xml_control t then Inl ValueError else Inr ()),
      pdf_draw = (\<lambda>_. Inr ())\<rparr>"

definition sample_recruiter :: user where
  "sample_recruiter = \<lparr>u_id = 1, u_username = ''rita'', u_role = ''recruiter''\<rparr>"

definition sample_jobseeker :: user where
  "sample_jobseeker = \<lparr>u_id = 2, u_username = ''alice'', u_role = ''jobseeker''\<rparr>"

definition sample_vacancy :: vacancy where
  "sample_vacancy =
     \<lparr>v_id = 1, v_title = ''Backend'', v_description = ''Backend engineer needed'',
      v_requirements = Some ''Python'', v_state = ''open'', v_uploaded_by = 1,
      v_embedding = [0, 0, 128, 63]\<rparr>"

definition sample_resume :: resume where
  "sample_resume =
     \<lparr>r_id = 1, r_version = ''1.0'', r_name = ''cv.txt'', r_vacancy_text = ''Backend'',
      r_extracted_text = ''Experienced backend engineer'', r_upgraded_cv = [],
      r_uploaded_by = 2, r_embedding = [0, 0, 128, 63], r_image = None\<rparr>"

definition sample_state :: app_state where
  "sample_state =
     \<lparr>users = [sample_recruiter, sample_jobseeker],
      vacancies = [sample_vacancy],
      resumes = [sample_resume],
      applied_resumes = [],
      notifications = [],
      subject_observers = [NotificationModelObserver 0]\<rparr>"

definition sample_application :: applied_resume where
  "sample_application =
     \<lparr>a_id = 1, a_resume = 1, a_vacancy = 1, a_match_rate = 1, a_state = ''accepted'',
      a_feedback = Some ''Good profile''\<rparr>"

text \<open>The same installation with one application, already decided or still pending.\<close>

definition sample_processed :: app_state where
  "sample_processed = sample_state\<lparr>applied_resumes := [sample_application]\<rparr>"

definition sample_pending :: app_state where
  "sample_pending =
     sample_state\<lparr>applied_resumes := [sample_application\<lparr>a_state := ''applied''\<rparr>]\<rparr>"

definition sample_request :: "nat \<Rightarrow> request" where
  "sample_request uid =
     \<lparr>session_user_id = Some uid,
      request_method = ''POST'',
      GET_vacancy_id = Missing,
      POST_resume_id = Id 1,
      POST_vacancy = ''Backend engineer needed'',
      FILES = [],
      form_is_valid = True,
      cleaned_data = (\<lambda>_. [])\<rparr>"

text \<open>
  A resume whose extracted text holds a form feed, as text extracted from a paginated
  document does, and the request for the improved CV as a Word document.
\<close>

definition formfeed_state :: app_state where
  "formfeed_state =
     sample_state
       \<lparr>resumes :=
          [sample_resume\<lparr>r_extracted_text := ''Page one'' @ CHR 0x0C # ''Page two''\<rparr>]\<rparr>"

definition docx_request :: request where
  "docx_request =
     (sample_request 2)
       \<lparr>cleaned_data := (\<lambda>k. if k = ''outputFormat'' then ''docx'' else [])\<rparr>"

text \<open>The installation before anything was posted, and after the recruiter's first post.\<close>

definition sample_empty :: app_state where
  "sample_empty = sample_state\<lparr>vacancies := [], resumes := []\<rparr>"

definition sample_posted :: app_state where
  "sample_posted = fst (snd (upload_vacancies sample_env (sample_request 1) sample_empty))"

text \<open>
  An installation with the hosted embedding service and two-dimensional embeddings, for the
  ranking: the texts \<open>a\<close>, \<open>b\<close>, \<open>c\<close> and \<open>d\<close> have the directions
  \<open>(1,0)\<close>, \<open>(0,1)\<close>, \<open>(3,4)\<close> and \<open>(-1,0)\<close>, the vacancy text \<open>(1,0)\<close>.
\<close>

definition ranking_env :: env where
  "ranking_env =
     sample_env
       \<lparr>OPENAI_API_KEY := Some ''sk'',
        openai_installed := True,
        embeddings_create :=
          (\<lambda>t. Inr (if t = ''a'' then [1, 0] else if t = ''b'' then [0, 1]
                    else if t = ''c'' then [3, 4] else if t = ''d'' then [255, 0]
                    else [1, 0])),
        utf8_decode :=
          (\<lambda>bs. Inr (if bs = [1] then ''a'' else if bs = [2] then ''b''
                     else if bs = [3] then ''c'' else ''d'')),
        float32 := (\<lambda>w. if w = 255 then - 1 else real (unat w))\<rparr>"

definition ranking_file :: "nat \<Rightarrow> uploaded_file" where
  "ranking_file n = \<lparr>f_name = ''cv.txt'', f_content = [of_nat n]\<rparr>"

definition ranking_request :: "uploaded_file list \<Rightarrow> request" where
  "ranking_request files =
     (sample_request 1)\<lparr>POST_vacancy := ''vacancy'', FILES := map (Pair ''file'') files\<rparr>"

definition ranking_entry :: "string \<Rightarrow> real \<Rightarrow> entry" where
  "ranking_entry text sc = \<lparr>e_filename = ''cv.txt'', e_cv_text = text, e_score = sc\<rparr>"

section \<open>Theorems\<close>

subsection \<open>Extraction strategy\<close>

lemma lower_pdf_literals:
  "lower ''pdf'' = ''pdf''" "lower ''PDF'' = ''pdf''" "lower ''Pdf'' = ''pdf''"
  by code_simp+

lemma takeWhile_no_dot:
  "CHR ''.'' \<notin> set s \<Longrightarrow> takeWhile (\<lambda>c. c \<noteq> CHR ''.'') (rev s) = rev s"
  by (auto simp: takeWhile_eq_all_conv)

lemma last_rsplit_dot_1:
  "last (rsplit_dot_1 s) = rev (takeWhile (\<lambda>c. c \<noteq> CHR ''.'') (rev s))"
proof (cases "CHR ''.'' \<in> set s")
  case True
  then show ?thesis by (simp add: rsplit_dot_1_def)
next
  case False
  then show ?thesis by (simp add: rsplit_dot_1_def takeWhile_no_dot)
qed

lemma last_rsplit_dot_1_append:
  assumes "CHR ''.'' \<notin> set ext"
  shows "last (rsplit_dot_1 (stem @ CHR ''.'' # ext)) = ext"
proof -
  have "takeWhile (\<lambda>c. c \<noteq> CHR ''.'') (rev ext @ CHR ''.'' # rev stem) = rev ext"
    using assms by (subst takeWhile_append2) auto
  then show ?thesis by (simp add: last_rsplit_dot_1)
qed

text \<open>
  What the selector does for every filename: the text after the last dot, or the whole
  name when there is no dot, is lower-cased and compared with \<open>pdf\<close>.
\<close>

lemma get_extraction_strategy_suffix:
  assumes "CHR ''.'' \<notin> set ext"
  shows "get_extraction_strategy (stem @ CHR ''.'' # ext) =
           (if lower ext = ''pdf'' then PdfExtractionStrategy else TextExtractionStrategy)"
  using assms by (simp add: get_extraction_strategy_def last_rsplit_dot_1_append)

lemma get_extraction_strategy_no_dot:
  assumes "CHR ''.'' \<notin> set filename"
  shows "get_extraction_strategy filename =
           (if lower filename = ''pdf'' then PdfExtractionStrategy else TextExtractionStrategy)"
  using assms
  by (simp add: get_extraction_strategy_def last_rsplit_dot_1 takeWhile_no_dot)

text \<open>
  Claim C5.  The claim says that every filename not ending in \<open>.pdf\<close>, filenames without
  an extension included, gets the plain-text strategy.  A file named just \<open>pdf\<close> has no
  extension and does not end in \<open>.pdf\<close>, yet \<open>rsplit\<close> returns the whole name and the
  selector answers with the PDF strategy.
\<close>

theorem get_extraction_strategy_bare_pdf:
  "get_extraction_strategy ''pdf'' = PdfExtractionStrategy
   \<and> get_extraction_strategy ''PDF'' = PdfExtractionStrategy"
  by (simp add: get_extraction_strategy_no_dot lower_pdf_literals)

subsection \<open>The default embedding\<close>

lemma length_word_bytes: "length (word_bytes n w) = n"
  by (simp add: word_bytes_def)

lemma length_tobytes64: "length (tobytes64 arr) = 8 * length arr"
  by (induction arr) (simp_all add: tobytes64_def length_word_bytes)

lemma length_tobytes32: "length (tobytes32 arr) = 4 * length arr"
  by (induction arr) (simp_all add: tobytes32_def length_word_bytes)

lemma length_chunks4: "length (chunks4 buf) = length buf div 4"
  by (induction buf rule: chunks4.induct) simp_all

text \<open>
  Claim C1.  The claim says the default generator encodes 1536 values as 32-bit floats,
  6144 bytes that decode to 1536 floats.  \<open>np.random.rand\<close> produces 64-bit floats
  and no conversion follows, so the blob has 12288 bytes, and the \<open>float32\<close> decoding
  used by \<open>apply_vacancy\<close> reads 3072 elements from it.
\<close>

theorem default_embedding_size:
  "length (default_embedding rand) = 12288
   \<and> map_sum id length (frombuffer32 (default_embedding rand)) = Inr 3072"
  by (simp add: default_embedding_def random_rand_def length_tobytes64
      frombuffer32_def length_chunks4)

subsection \<open>Observer registration\<close>

text \<open>
  Claim C6, as the code has it.  Unregistering an observer that is not in the list raises
  \<open>ValueError\<close> (the list is left as it was, since nothing is returned); unregistering
  a registered observer removes its first occurrence and keeps the rest in order.
\<close>

theorem unregister_behaviour:
  "(obs \<notin> set observers \<longrightarrow> unregister observers obs = Inl ValueError)
   \<and> (obs \<in> set observers \<longrightarrow>
        (\<exists>xs ys. observers = xs @ obs # ys \<and> obs \<notin> set xs
                 \<and> unregister observers obs = Inr (xs @ ys)))"
proof (intro conjI impI)
  assume "obs \<notin> set observers"
  then show "unregister observers obs = Inl ValueError"
    by (simp add: unregister_def)
next
  assume mem: "obs \<in> set observers"
  then obtain xs ys where split: "observers = xs @ obs # ys" "obs \<notin> set xs"
    by (meson split_list_first)
  then have "remove1 obs observers = xs @ ys"
    by (simp add: remove1_append)
  with mem split show "\<exists>xs ys. observers = xs @ obs # ys \<and> obs \<notin> set xs
      \<and> unregister observers obs = Inr (xs @ ys)"
    unfolding unregister_def by force
qed

theorem unregister_behaviour_witness:
  "NotificationModelObserver 1 \<notin> set [NotificationModelObserver 0]
   \<and> unregister [NotificationModelObserver 0] (NotificationModelObserver 1) = Inl ValueError
   \<and> NotificationModelObserver 0
        \<in> set [NotificationModelObserver 0, NotificationModelObserver 1, NotificationModelObserver 0]
   \<and> unregister [NotificationModelObserver 0, NotificationModelObserver 1, NotificationModelObserver 0]
         (NotificationModelObserver 0)
       = Inr [NotificationModelObserver 1, NotificationModelObserver 0]"
  using unregister_behaviour [of "NotificationModelObserver 1" "[NotificationModelObserver 0]"]
        unregister_behaviour [of "NotificationModelObserver 0"
          "[NotificationModelObserver 0, NotificationModelObserver 1, NotificationModelObserver 0]"]
  by (simp add: unregister_def)

text \<open>The claim as stated, that unregistering an absent observer does not raise, fails
  for the subject holding one observer and a second observer that was never registered.\<close>

theorem unregister_absent_raises:
  "unregister [NotificationModelObserver 0] (NotificationModelObserver 1) = Inl ValueError"
  by (simp add: unregister_def)

subsection \<open>Vacancy state toggle\<close>

lemma find_map_replace_vacancy:
  "find (\<lambda>x. v_id x = i) (map (\<lambda>x. if v_id x = v_id v then v else x) xs) =
     (if v_id v = i then map_option (\<lambda>_. v) (find (\<lambda>x. v_id x = i) xs)
      else find (\<lambda>x. v_id x = i) xs)"
  by (induction xs) auto

lemma get_vacancy_id: "get_vacancy s i = Inr v \<Longrightarrow> v_id v = i"
  by (auto simp: get_vacancy_def find_Some_iff split: option.splits)

lemma get_vacancy_save_vacancy:
  "get_vacancy s i = Inr v \<Longrightarrow> v_id v' = i \<Longrightarrow> get_vacancy (save_vacancy s v') i = Inr v'"
  by (auto simp: get_vacancy_def save_vacancy_def find_map_replace_vacancy split: option.splits)

lemma get_user_id: "get_user s i = Inr u \<Longrightarrow> u_id u = i"
  by (auto simp: get_user_def find_Some_iff split: option.splits)

lemma toggled_toggled: "toggled (toggled st) = st"
  by (simp add: toggled_def)

lemma change_state_vacancy_owner:
  assumes "session_user_id request = Some uid"
    and "get_vacancy s vid = Inr vacancy"
    and "get_user s (v_uploaded_by vacancy) = Inr owner"
    and "u_id owner = uid"
  shows "fst (snd (change_state_vacancy request vid s)) =
           (if v_state vacancy = ''open'' then save_vacancy s (vacancy\<lparr>v_state := ''closed''\<rparr>)
            else if v_state vacancy = ''closed''
                 then save_vacancy s (vacancy\<lparr>v_state := ''open''\<rparr>)
                 else s)"
  unfolding change_state_vacancy_def
  by (simp only: assms option.case sum.case if_True if_False simp_thms fst_conv snd_conv
      if_distrib [of "\<lambda>r. fst (snd r)"] if_distrib [of snd] if_distrib [of fst])

lemma change_state_vacancy_step:
  assumes "session_user_id request = Some uid"
    and "get_vacancy s vid = Inr vacancy"
    and "get_user s (v_uploaded_by vacancy) = Inr owner"
    and "u_id owner = uid"
  shows "get_vacancy (fst (snd (change_state_vacancy request vid s))) vid
           = Inr (vacancy\<lparr>v_state := toggled (v_state vacancy)\<rparr>)"
    and "users (fst (snd (change_state_vacancy request vid s))) = users s"
proof -
  have vid: "v_id vacancy = vid" using assms(2) by (rule get_vacancy_id)
  note st = change_state_vacancy_owner [OF assms]
  have sv: "\<And>x. get_vacancy (save_vacancy s (vacancy\<lparr>v_state := x\<rparr>)) vid
                = Inr (vacancy\<lparr>v_state := x\<rparr>)"
    by (rule get_vacancy_save_vacancy [OF assms(2)]) (simp add: vid)
  show "get_vacancy (fst (snd (change_state_vacancy request vid s))) vid
           = Inr (vacancy\<lparr>v_state := toggled (v_state vacancy)\<rparr>)"
  proof (cases "v_state vacancy = ''open''")
    case True
    then show ?thesis by (simp add: st sv toggled_def)
  next
    case False
    show ?thesis
    proof (cases "v_state vacancy = ''closed''")
      case True
      then show ?thesis by (simp add: st sv toggled_def)
    next
      case other: False
      with False show ?thesis by (simp add: st toggled_def assms(2))
    qed
  qed
  show "users (fst (snd (change_state_vacancy request vid s))) = users s"
    by (simp add: st save_vacancy_def)
qed

lemma toggle_times_even:
  assumes "session_user_id request = Some uid"
    and "get_vacancy s vid = Inr vacancy"
    and "get_user s (v_uploaded_by vacancy) = Inr owner"
    and "u_id owner = uid"
  shows "get_vacancy (toggle_times (2 * k) request vid s) vid = Inr vacancy"
  using assms
proof (induction k arbitrary: s)
  case 0
  then show ?case by simp
next
  case (Suc k)
  let ?s1 = "fst (snd (change_state_vacancy request vid s))"
  let ?v1 = "vacancy\<lparr>v_state := toggled (v_state vacancy)\<rparr>"
  let ?s2 = "fst (snd (change_state_vacancy request vid ?s1))"
  have g1: "get_vacancy ?s1 vid = Inr ?v1" and u1: "users ?s1 = users s"
    using change_state_vacancy_step [OF Suc.prems] by simp_all
  have o1: "get_user ?s1 (v_uploaded_by ?v1) = Inr owner"
    using Suc.prems(3) u1 unfolding get_user_def by simp
  have g2: "get_vacancy ?s2 vid = Inr vacancy" and u2: "users ?s2 = users ?s1"
    using change_state_vacancy_step [OF Suc.prems(1) g1 o1 Suc.prems(4)]
    by (simp_all add: toggled_toggled)
  have o2: "get_user ?s2 (v_uploaded_by vacancy) = Inr owner"
    using Suc.prems(3) u1 u2 unfolding get_user_def by simp
  have "get_vacancy (toggle_times (2 * k) request vid ?s2) vid = Inr vacancy"
    by (rule Suc.IH [OF Suc.prems(1) g2 o2 Suc.prems(4)])
  then show ?case by simp
qed

text \<open>
  Claim C8.  When the request comes from the vacancy's owner, \<open>change_state_vacancy\<close>
  turns the stored state \<open>open\<close> into \<open>closed\<close>, \<open>closed\<close> into \<open>open\<close> and
  leaves any other value as it is; after an even number of such requests the stored
  state is the original one.
\<close>

theorem change_state_vacancy_toggles:
  assumes "session_user_id request = Some uid"
    and "get_vacancy s vid = Inr vacancy"
    and "get_user s (v_uploaded_by vacancy) = Inr owner"
    and "u_id owner = uid"
  shows "map_sum id v_state (get_vacancy (fst (snd (change_state_vacancy request vid s))) vid)
           = Inr (if v_state vacancy = ''open'' then ''closed''
                  else if v_state vacancy = ''closed'' then ''open''
                  else v_state vacancy)
       \<and> (\<forall>k. map_sum id v_state (get_vacancy (toggle_times (2 * k) request vid s) vid)
                 = Inr (v_state vacancy))"
  using change_state_vacancy_step(1) [OF assms] toggle_times_even [OF assms]
  by (simp add: toggled_def)

lemma sample_lookups:
  "get_user sample_state 1 = Inr sample_recruiter"
  "get_user sample_state 2 = Inr sample_jobseeker"
  "get_vacancy sample_state 1 = Inr sample_vacancy"
  "get_resume sample_state 1 = Inr sample_resume"
  by (simp_all add: get_user_def get_vacancy_def get_resume_def sample_state_def
      sample_recruiter_def sample_jobseeker_def sample_vacancy_def sample_resume_def)

theorem change_state_vacancy_toggles_witness:
  "session_user_id (sample_request 1) = Some 1
   \<and> get_vacancy sample_state 1 = Inr sample_vacancy
   \<and> get_user sample_state (v_uploaded_by sample_vacancy) = Inr sample_recruiter
   \<and> u_id sample_recruiter = 1
   \<and> v_state sample_vacancy = ''open''
   \<and> map_sum id v_state
         (get_vacancy (fst (snd (change_state_vacancy (sample_request 1) 1 sample_state))) 1)
       = Inr ''closed''
   \<and> map_sum id v_state (get_vacancy (toggle_times 2 (sample_request 1) 1 sample_state) 1)
       = Inr ''open''"
proof -
  have h1: "session_user_id (sample_request 1) = Some 1"
    by (simp add: sample_request_def)
  have h2: "get_vacancy sample_state 1 = Inr sample_vacancy"
    by (rule sample_lookups)
  have h3: "get_user sample_state (v_uploaded_by sample_vacancy) = Inr sample_recruiter"
    using sample_lookups(1) by (simp add: sample_vacancy_def)
  have h4: "u_id sample_recruiter = 1"
    by (simp add: sample_recruiter_def)
  have st: "v_state sample_vacancy = ''open''"
    by (simp add: sample_vacancy_def)
  note inst = change_state_vacancy_toggles [OF h1 h2 h3 h4]
  from inst have once: "map_sum id v_state
         (get_vacancy (fst (snd (change_state_vacancy (sample_request 1) 1 sample_state))) 1)
       = Inr ''closed''"
    by (simp add: st)
  from inst have "map_sum id v_state
        (get_vacancy (toggle_times (2 * 1) (sample_request 1) 1 sample_state) 1)
       = Inr (v_state sample_vacancy)"
    by blast
  then have twice: "map_sum id v_state
        (get_vacancy (toggle_times 2 (sample_request 1) 1 sample_state) 1) = Inr ''open''"
    by (simp add: st)
  from h1 h2 h3 h4 st once twice show ?thesis by blast
qed

subsection \<open>Accepting and rejecting applications\<close>


lemma observer_notify_tables:
  "users (observer_notify ob u m s) = users s"
  "vacancies (observer_notify ob u m s) = vacancies s"
  "resumes (observer_notify ob u m s) = resumes s"
  "applied_resumes (observer_notify ob u m s) = applied_resumes s"
  "subject_observers (observer_notify ob u m s) = subject_observers s"
  "length (notifications (observer_notify ob u m s)) = Suc (length (notifications s))"
  by (cases ob; simp)+

lemma fold_observer_notify_tables:
  "users (fold (\<lambda>ob. observer_notify ob u m) obs s) = users s"
  "vacancies (fold (\<lambda>ob. observer_notify ob u m) obs s) = vacancies s"
  "resumes (fold (\<lambda>ob. observer_notify ob u m) obs s) = resumes s"
  "applied_resumes (fold (\<lambda>ob. observer_notify ob u m) obs s) = applied_resumes s"
  "length (notifications (fold (\<lambda>ob. observer_notify ob u m) obs s))
     = length (notifications s) + length obs"
  by (induction obs arbitrary: s; simp add: observer_notify_tables)+

lemma notify_tables:
  "users (notify u m s) = users s"
  "vacancies (notify u m s) = vacancies s"
  "resumes (notify u m s) = resumes s"
  "applied_resumes (notify u m s) = applied_resumes s"
  "length (notifications (notify u m s))
     = length (notifications s) + length (subject_observers s)"
  by (simp_all add: notify_def fold_observer_notify_tables)

lemma find_map_replace_applied:
  "find (\<lambda>x. a_id x = i) (map (\<lambda>x. if a_id x = a_id a then a else x) xs) =
     (if a_id a = i then map_option (\<lambda>_. a) (find (\<lambda>x. a_id x = i) xs)
      else find (\<lambda>x. a_id x = i) xs)"
  by (induction xs) auto

lemma get_applied_resume_id: "get_applied_resume s i = Inr a \<Longrightarrow> a_id a = i"
  by (auto simp: get_applied_resume_def find_Some_iff split: option.splits)

lemma get_applied_resume_save:
  "get_applied_resume s i = Inr a \<Longrightarrow> a_id a' = i
     \<Longrightarrow> get_applied_resume (save_applied_resume s a') i = Inr a'"
  by (auto simp: get_applied_resume_def save_applied_resume_def find_map_replace_applied
      split: option.splits)

lemma accept_resume_unchanged:
  assumes "get_applied_resume s rid = Inr application" "a_state application \<noteq> ''applied''"
  shows "fst (snd (accept_resume request rid s)) = s"
  using assms unfolding accept_resume_def
  by (simp split: option.split sum.split)

lemma reject_resume_unchanged:
  assumes "get_applied_resume s rid = Inr application" "a_state application \<noteq> ''applied''"
  shows "fst (snd (reject_resume request rid s)) = s"
  using assms unfolding reject_resume_def
  by (simp split: option.split sum.split)

lemma decide_and_notify_result:
  assumes "get_applied_resume s rid = Inr application"
    and "get_resume s (a_resume application) = Inr cv"
    and "get_user s (r_uploaded_by cv) = Inr applicant"
  shows "decide_and_notify application st text done s =
           (Inr (Redirect ''history''),
            notify applicant text (save_applied_resume s (application\<lparr>a_state := st\<rparr>)),
            [done])"
  using assms
  by (simp add: decide_and_notify_def Let_def get_resume_def get_user_def
      save_applied_resume_def)


lemma accept_resume_applied:
  assumes "session_user_id request = Some uid"
    and "get_user s uid = Inr user"
    and "get_applied_resume s rid = Inr application"
    and "a_state application = ''applied''"
    and "get_vacancy s (a_vacancy application) = Inr vacancy"
    and "v_uploaded_by vacancy = uid"
    and "get_resume s (a_resume application) = Inr cv"
    and "get_user s (r_uploaded_by cv) = Inr applicant"
  shows "\<exists>text done. accept_resume request rid s =
           (Inr (Redirect ''history''),
            notify applicant text (save_applied_resume s (application\<lparr>a_state := ''accepted''\<rparr>)),
            [done])"
proof -
  have uid: "u_id user = uid" using assms(2) by (rule get_user_id)
  show ?thesis
    unfolding accept_resume_def
    apply (simp add: assms uid decide_and_notify_result [OF assms(3) assms(7) assms(8)])
    apply (rule exI)
    apply (rule refl)
    done
qed

lemma reject_resume_applied:
  assumes "session_user_id request = Some uid"
    and "get_user s uid = Inr user"
    and "get_applied_resume s rid = Inr application"
    and "a_state application = ''applied''"
    and "get_vacancy s (a_vacancy application) = Inr vacancy"
    and "v_uploaded_by vacancy = uid"
    and "get_resume s (a_resume application) = Inr cv"
    and "get_user s (r_uploaded_by cv) = Inr applicant"
  shows "\<exists>text done. reject_resume request rid s =
           (Inr (Redirect ''history''),
            notify applicant text (save_applied_resume s (application\<lparr>a_state := ''rejected''\<rparr>)),
            [done])"
proof -
  have uid: "u_id user = uid" using assms(2) by (rule get_user_id)
  show ?thesis
    unfolding reject_resume_def
    apply (simp add: assms uid decide_and_notify_result [OF assms(3) assms(7) assms(8)])
    apply (rule exI)
    apply (rule refl)
    done
qed

lemma decided_state:
  assumes "get_applied_resume s rid = Inr application"
  shows "get_applied_resume (notify applicant text
            (save_applied_resume s (application\<lparr>a_state := st\<rparr>))) rid
           = Inr (application\<lparr>a_state := st\<rparr>)"
    and "length (notifications (notify applicant text
            (save_applied_resume s (application\<lparr>a_state := st\<rparr>))))
           = length (notifications s) + length (subject_observers s)"
proof -
  have aid: "a_id application = rid" using assms by (rule get_applied_resume_id)
  have "get_applied_resume (save_applied_resume s (application\<lparr>a_state := st\<rparr>)) rid
          = Inr (application\<lparr>a_state := st\<rparr>)"
    by (rule get_applied_resume_save [OF assms]) (simp add: aid)
  then show "get_applied_resume (notify applicant text
            (save_applied_resume s (application\<lparr>a_state := st\<rparr>))) rid
           = Inr (application\<lparr>a_state := st\<rparr>)"
    by (simp add: get_applied_resume_def notify_tables)
  show "length (notifications (notify applicant text
            (save_applied_resume s (application\<lparr>a_state := st\<rparr>))))
           = length (notifications s) + length (subject_observers s)"
    by (simp add: notify_tables save_applied_resume_def)
qed

text \<open>
  Claim C3.  An application whose state is not \<open>applied\<close> (already \<open>accepted\<close> or
  \<open>rejected\<close>) is left alone by \<open>accept_resume\<close> and by \<open>reject_resume\<close>: the
  whole state, with the application's state and feedback and the notifications, is
  unchanged.  From \<open>applied\<close>, the owner of the vacancy moves it to \<open>accepted\<close> or
  \<open>rejected\<close>, and each registered observer delivers one notification.
\<close>

theorem decisions_only_from_applied:
  "(get_applied_resume s rid = Inr application \<and> a_state application \<noteq> ''applied'' \<longrightarrow>
      fst (snd (accept_resume request rid s)) = s
      \<and> fst (snd (reject_resume request rid s)) = s)
   \<and> (session_user_id request = Some uid \<and> get_user s uid = Inr user
        \<and> get_applied_resume s rid = Inr application \<and> a_state application = ''applied''
        \<and> get_vacancy s (a_vacancy application) = Inr vacancy \<and> v_uploaded_by vacancy = uid
        \<and> get_resume s (a_resume application) = Inr cv
        \<and> get_user s (r_uploaded_by cv) = Inr applicant \<longrightarrow>
      get_applied_resume (fst (snd (accept_resume request rid s))) rid
        = Inr (application\<lparr>a_state := ''accepted''\<rparr>)
      \<and> get_applied_resume (fst (snd (reject_resume request rid s))) rid
        = Inr (application\<lparr>a_state := ''rejected''\<rparr>)
      \<and> length (notifications (fst (snd (accept_resume request rid s))))
        = length (notifications s) + length (subject_observers s)
      \<and> length (notifications (fst (snd (reject_resume request rid s))))
        = length (notifications s) + length (subject_observers s))"
proof (intro conjI impI)
  assume "get_applied_resume s rid = Inr application \<and> a_state application \<noteq> ''applied''"
  then show "fst (snd (accept_resume request rid s)) = s"
    and "fst (snd (reject_resume request rid s)) = s"
    by (simp_all add: accept_resume_unchanged reject_resume_unchanged)
next
  assume h: "session_user_id request = Some uid \<and> get_user s uid = Inr user
        \<and> get_applied_resume s rid = Inr application \<and> a_state application = ''applied''
        \<and> get_vacancy s (a_vacancy application) = Inr vacancy \<and> v_uploaded_by vacancy = uid
        \<and> get_resume s (a_resume application) = Inr cv
        \<and> get_user s (r_uploaded_by cv) = Inr applicant"
  then have a: "get_applied_resume s rid = Inr application" by simp
  from h obtain t1 d1 where acc: "accept_resume request rid s =
       (Inr (Redirect ''history''),
        notify applicant t1 (save_applied_resume s (application\<lparr>a_state := ''accepted''\<rparr>)),
        [d1])"
    using accept_resume_applied [of request uid s user rid application vacancy cv applicant]
    by blast
  from h obtain t2 d2 where rej: "reject_resume request rid s =
       (Inr (Redirect ''history''),
        notify applicant t2 (save_applied_resume s (application\<lparr>a_state := ''rejected''\<rparr>)),
        [d2])"
    using reject_resume_applied [of request uid s user rid application vacancy cv applicant]
    by blast
  show "get_applied_resume (fst (snd (accept_resume request rid s))) rid
        = Inr (application\<lparr>a_state := ''accepted''\<rparr>)"
    by (simp add: acc decided_state(1) [OF a])
  show "get_applied_resume (fst (snd (reject_resume request rid s))) rid
        = Inr (application\<lparr>a_state := ''rejected''\<rparr>)"
    by (simp add: rej decided_state(1) [OF a])
  show "length (notifications (fst (snd (accept_resume request rid s))))
        = length (notifications s) + length (subject_observers s)"
    by (simp add: acc decided_state(2) [OF a])
  show "length (notifications (fst (snd (reject_resume request rid s))))
        = length (notifications s) + length (subject_observers s)"
    by (simp add: rej decided_state(2) [OF a])
qed

lemma sample_processed_lookups:
  "get_user sample_processed 1 = Inr sample_recruiter"
  "get_user sample_processed 2 = Inr sample_jobseeker"
  "get_vacancy sample_processed 1 = Inr sample_vacancy"
  "get_resume sample_processed 1 = Inr sample_resume"
  "get_applied_resume sample_processed 1 = Inr sample_application"
  by (simp_all add: get_user_def get_vacancy_def get_resume_def get_applied_resume_def
      sample_processed_def sample_state_def sample_application_def
      sample_recruiter_def sample_jobseeker_def sample_vacancy_def sample_resume_def)

lemma sample_pending_lookups:
  "get_user sample_pending 1 = Inr sample_recruiter"
  "get_user sample_pending 2 = Inr sample_jobseeker"
  "get_vacancy sample_pending 1 = Inr sample_vacancy"
  "get_resume sample_pending 1 = Inr sample_resume"
  "get_applied_resume sample_pending 1 = Inr (sample_application\<lparr>a_state := ''applied''\<rparr>)"
  by (simp_all add: get_user_def get_vacancy_def get_resume_def get_applied_resume_def
      sample_pending_def sample_state_def sample_application_def
      sample_recruiter_def sample_jobseeker_def sample_vacancy_def sample_resume_def)

theorem decisions_only_from_applied_witness:
  "get_applied_resume sample_processed 1 = Inr sample_application
   \<and> a_state sample_application \<noteq> ''applied''
   \<and> fst (snd (accept_resume (sample_request 1) 1 sample_processed)) = sample_processed
   \<and> fst (snd (reject_resume (sample_request 1) 1 sample_processed)) = sample_processed
   \<and> get_applied_resume sample_pending 1 = Inr (sample_application\<lparr>a_state := ''applied''\<rparr>)
   \<and> get_applied_resume (fst (snd (accept_resume (sample_request 1) 1 sample_pending))) 1
       = Inr (sample_application\<lparr>a_state := ''accepted''\<rparr>)
   \<and> get_applied_resume (fst (snd (reject_resume (sample_request 1) 1 sample_pending))) 1
       = Inr (sample_application\<lparr>a_state := ''rejected''\<rparr>)
   \<and> length (notifications (fst (snd (accept_resume (sample_request 1) 1 sample_pending)))) = 1"
proof -
  have p1: "get_applied_resume sample_processed 1 = Inr sample_application"
    by (rule sample_processed_lookups)
  have p2: "a_state sample_application \<noteq> ''applied''"
    by (simp add: sample_application_def)
  have q: "session_user_id (sample_request 1) = Some 1
      \<and> get_user sample_pending 1 = Inr sample_recruiter
      \<and> get_applied_resume sample_pending 1 = Inr (sample_application\<lparr>a_state := ''applied''\<rparr>)
      \<and> a_state (sample_application\<lparr>a_state := ''applied''\<rparr>) = ''applied''
      \<and> get_vacancy sample_pending (a_vacancy (sample_application\<lparr>a_state := ''applied''\<rparr>))
          = Inr sample_vacancy
      \<and> v_uploaded_by sample_vacancy = 1
      \<and> get_resume sample_pending (a_resume (sample_application\<lparr>a_state := ''applied''\<rparr>))
          = Inr sample_resume
      \<and> get_user sample_pending (r_uploaded_by sample_resume) = Inr sample_jobseeker"
    using sample_pending_lookups
    by (simp add: sample_request_def sample_application_def sample_vacancy_def
        sample_resume_def)
  have n: "length (notifications sample_pending) + length (subject_observers sample_pending) = 1"
    by (simp add: sample_pending_def sample_state_def)
  note a = decisions_only_from_applied
    [where s = sample_processed and rid = 1 and application = sample_application
       and request = "sample_request 1", THEN conjunct1, rule_format]
  note b = decisions_only_from_applied
    [where request = "sample_request 1" and uid = 1 and s = sample_pending
       and user = sample_recruiter and rid = 1
       and application = "sample_application\<lparr>a_state := ''applied''\<rparr>"
       and vacancy = sample_vacancy and cv = sample_resume and applicant = sample_jobseeker,
     THEN conjunct2, rule_format, OF q]
  from a [OF conjI [OF p1 p2]] b p1 p2 n sample_pending_lookups(5) show ?thesis
    by simp
qed

subsection \<open>Batch ranking\<close>


lemma rank_files_entries:
  "map (file_entry env vemb) files = map Inr items \<Longrightarrow>
     rank_files env vemb files ranking best = Inr (ranking @ items, fold update_best items best)"
proof (induction files arbitrary: items ranking best)
  case Nil
  then show ?case by simp
next
  case (Cons f fs)
  then obtain item rest where items: "items = item # rest"
    and f: "file_entry env vemb f = Inr item"
    and fs: "map (file_entry env vemb) fs = map Inr rest"
    by (cases items) auto
  show ?case
    by (simp add: f items Cons.IH [OF fs])
qed

lemma find_append_case:
  "find P (xs @ ys) = (case find P xs of None \<Rightarrow> find P ys | Some x \<Rightarrow> Some x)"
  by (induction xs) auto

lemma find_filter_Cons: "filter P xs = y # ys \<Longrightarrow> find P xs = Some y"
  by (induction xs) (auto split: if_splits)

lemma fold_update_best_invariant:
  "fold update_best items (None, - 1) = (b, bs) \<Longrightarrow>
     (\<forall>x\<in>set items. e_score x \<le> bs) \<and> - 1 \<le> bs
     \<and> (b = None \<longrightarrow> bs = - 1)
     \<and> (\<forall>y. b = Some y \<longrightarrow> - 1 < bs \<and> find (\<lambda>z. e_score z = bs) items = Some y)"
proof (induction items arbitrary: b bs rule: rev_induct)
  case Nil
  then show ?case by simp
next
  case (snoc x xs)
  obtain b0 bs0 where prev: "fold update_best xs (None, - 1) = (b0, bs0)"
    by (cases "fold update_best xs (None, - 1)") auto
  note ih = snoc.IH [OF prev]
  from snoc.prems prev have step: "update_best x (b0, bs0) = (b, bs)" by simp
  show ?case
  proof (cases "e_score x > bs0")
    case True
    with step have eq: "b = Some x" "bs = e_score x" by simp_all
    have "find (\<lambda>z. e_score z = e_score x) xs = None"
      using ih True by (auto simp: find_None_iff)
    with ih True eq show ?thesis
      by (auto simp: find_append_case)
  next
    case False
    with step have eq: "b = b0" "bs = bs0" by simp_all
    with ih False show ?thesis
      by (auto simp: find_append_case)
  qed
qed

lemma sort_ranking_sorted:
  "sorted_wrt (\<lambda>x y. e_score y \<le> e_score x) (sort_ranking items)"
proof -
  have "sorted (map (\<lambda>x. - e_score x) (sort_ranking items))"
    by (simp add: sort_ranking_def)
  then show ?thesis
    by (simp add: sorted_map sorted_wrt_iff_nth_less)
qed

lemma sort_ranking_hd:
  assumes "items \<noteq> []"
  shows "hd (sort_ranking items) \<in> set items"
    and "\<forall>x\<in>set items. e_score x \<le> e_score (hd (sort_ranking items))"
    and "find (\<lambda>z. e_score z = e_score (hd (sort_ranking items))) items
           = Some (hd (sort_ranking items))"
proof -
  let ?r = "sort_ranking items"
  let ?h = "hd ?r"
  have "length ?r = length items" by (simp add: sort_ranking_def)
  with assms have ne: "?r \<noteq> []" by auto
  then obtain t where r: "?r = ?h # t" by (cases ?r) auto
  have set_eq: "set ?r = set items" by (simp add: sort_ranking_def)
  show mem: "?h \<in> set items" using ne set_eq hd_in_set by blast
  have srt: "sorted_wrt (\<lambda>x y. e_score y \<le> e_score x) (?h # t)"
    using sort_ranking_sorted [of items] r by simp
  show "\<forall>x\<in>set items. e_score x \<le> e_score ?h"
  proof
    fix x assume "x \<in> set items"
    then have "x \<in> set (?h # t)" using set_eq r by simp
    then show "e_score x \<le> e_score ?h" using srt by auto
  qed
  have stable: "filter (\<lambda>z. - e_score z = - e_score ?h) ?r
                  = filter (\<lambda>z. - e_score z = - e_score ?h) items"
    unfolding sort_ranking_def by (rule sort_key_stable)
  have "filter (\<lambda>z. e_score z = e_score ?h) (?h # t) = ?h # filter (\<lambda>z. e_score z = e_score ?h) t"
    by simp
  with stable r have "filter (\<lambda>z. e_score z = e_score ?h) items
       = ?h # filter (\<lambda>z. e_score z = e_score ?h) t"
    by simp
  then show "find (\<lambda>z. e_score z = e_score ?h) items = Some ?h"
    by (rule find_filter_Cons)
qed


lemma sort_ranking_stable:
  "filter (\<lambda>x. e_score x = k) (sort_ranking items) = filter (\<lambda>x. e_score x = k) items"
  using sort_key_stable [of "\<lambda>x. - e_score x" "- k" items]
  by (simp add: sort_ranking_def)

lemma best_is_head:
  assumes "items \<noteq> []"
  shows "fst (fold update_best items (None, - 1)) =
           (if - 1 < e_score (hd (sort_ranking items)) then Some (hd (sort_ranking items))
            else None)"
proof -
  let ?h = "hd (sort_ranking items)"
  obtain b bs where f: "fold update_best items (None, - 1) = (b, bs)"
    by (cases "fold update_best items (None, - 1)") auto
  note inv = fold_update_best_invariant [OF f]
  note hd = sort_ranking_hd [OF assms]
  show ?thesis
  proof (cases b)
    case None
    with inv have "bs = - 1" by simp
    with inv hd(1) have "e_score ?h \<le> - 1" by auto
    with None f show ?thesis by simp
  next
    case (Some y)
    with inv have pos: "- 1 < bs" and fy: "find (\<lambda>z. e_score z = bs) items = Some y"
      by simp_all
    from fy have y: "y \<in> set items" "e_score y = bs"
      by (auto simp: find_Some_iff)
    have "e_score ?h \<le> bs" using inv hd(1) by auto
    moreover have "bs \<le> e_score ?h" using hd(2) y by auto
    ultimately have eq: "e_score ?h = bs" by simp
    with fy hd(3) have "y = ?h" by simp
    with Some f eq pos show ?thesis by simp
  qed
qed

lemma FILES_nonempty: "FILES_getlist request key \<noteq> [] \<Longrightarrow> FILES request \<noteq> []"
  by (auto simp: FILES_getlist_def)

lemma sort_ranking_example:
  "sort_ranking [ranking_entry ''a'' (9/10), ranking_entry ''b'' (3/10), ranking_entry ''c'' (6/10)]
     = [ranking_entry ''a'' (9/10), ranking_entry ''c'' (6/10), ranking_entry ''b'' (3/10)]"
  "fst (fold update_best
          [ranking_entry ''a'' (9/10), ranking_entry ''b'' (3/10), ranking_entry ''c'' (6/10)]
          (None, - 1))
     = Some (ranking_entry ''a'' (9/10))"
  by (simp_all add: sort_ranking_def ranking_entry_def)

lemma uploadCVS_runs:
  assumes "session_user_id request = Some uid"
    and "get_user s uid = Inr user"
    and "request_method request = ''POST''"
    and "form_is_valid request"
    and "strip (POST_vacancy request) \<noteq> []"
    and "FILES_getlist request ''file'' \<noteq> []"
    and "embed env (POST_vacancy request) = Inr vemb"
    and "map (file_entry env vemb) (FILES_getlist request ''file'') = map Inr items"
  shows "fst (uploadCVS env request s) =
           Inr (RenderMatching (sort_ranking items) (fst (fold update_best items (None, - 1))))"
proof -
  have files: "FILES request \<noteq> []" using assms(6) by (rule FILES_nonempty)
  have run: "rank_files env vemb (FILES_getlist request ''file'') [] (None, - 1)
               = Inr (items, fold update_best items (None, - 1))"
    using rank_files_entries [OF assms(8), of "[]" "(None, - 1)"] by simp
  obtain b bs where f: "fold update_best items (None, - 1) = (b, bs)"
    by (cases "fold update_best items (None, - 1)") auto
  show ?thesis
    unfolding uploadCVS_def
    by (simp add: assms(1-5) assms(6) assms(7) files run f)
qed

text \<open>
  The ranking of \<open>uploadCVS\<close> when every uploaded file yields an entry: the entries
  sorted by descending score, ties in their original order (the result is sorted, a
  permutation, and for each score the entries with that score are in upload order).
  \<open>best_cv\<close> is the head of that ranking exactly when the head's score is greater than
  \<open>-1\<close>, the initial value of \<open>best_score\<close>.  Scores 0.9, 0.3, 0.6 give the order
  0.9, 0.6, 0.3 with the 0.9 entry as \<open>best_cv\<close>.
\<close>

theorem uploadCVS_ranking:
  assumes "session_user_id request = Some uid"
    and "get_user s uid = Inr user"
    and "request_method request = ''POST''"
    and "form_is_valid request"
    and "strip (POST_vacancy request) \<noteq> []"
    and "FILES_getlist request ''file'' \<noteq> []"
    and "embed env (POST_vacancy request) = Inr vemb"
    and "map (file_entry env vemb) (FILES_getlist request ''file'') = map Inr items"
  shows "(\<exists>best. fst (uploadCVS env request s) = Inr (RenderMatching (sort_ranking items) best)
           \<and> sorted_wrt (\<lambda>x y. e_score y \<le> e_score x) (sort_ranking items)
           \<and> mset (sort_ranking items) = mset items
           \<and> (\<forall>k. filter (\<lambda>x. e_score x = k) (sort_ranking items)
                      = filter (\<lambda>x. e_score x = k) items)
           \<and> best = (if - 1 < e_score (hd (sort_ranking items))
                      then Some (hd (sort_ranking items)) else None))
       \<and> sort_ranking [ranking_entry ''a'' (9/10), ranking_entry ''b'' (3/10),
                        ranking_entry ''c'' (6/10)]
           = [ranking_entry ''a'' (9/10), ranking_entry ''c'' (6/10), ranking_entry ''b'' (3/10)]
       \<and> fst (fold update_best [ranking_entry ''a'' (9/10), ranking_entry ''b'' (3/10),
                                  ranking_entry ''c'' (6/10)] (None, - 1))
           = Some (ranking_entry ''a'' (9/10))"
proof -
  have ne: "items \<noteq> []" using assms(6) assms(8) by auto
  note res = uploadCVS_runs [OF assms]
  have b: "fst (fold update_best items (None, - 1))
             = (if - 1 < e_score (hd (sort_ranking items))
                 then Some (hd (sort_ranking items)) else None)"
    by (rule best_is_head [OF ne])
  have m: "mset (sort_ranking items) = mset items"
    by (simp add: sort_ranking_def)
  show ?thesis
    by (intro exI conjI allI)
      (rule res sort_ranking_sorted m sort_ranking_stable b sort_ranking_example)+
qed


lemma sqrt_25: "sqrt 25 = 5"
  by (rule real_sqrt_unique) simp_all

lemma strategy_cv_txt: "get_extraction_strategy ''cv.txt'' = TextExtractionStrategy"
  by code_simp

lemma embed_ranking_env:
  "embed ranking_env t =
     Inr (if t = ''a'' then [1, 0] else if t = ''b'' then [0, 1]
          else if t = ''c'' then [3, 4] else if t = ''d'' then [255, 0] else [1, 0])"
  by (simp add: embed_def embedding_service_of_def ranking_env_def sample_env_def)

lemma float32_ranking_env:
  "float32 ranking_env w = (if w = 255 then - 1 else real (unat w))"
  by (simp add: ranking_env_def sample_env_def)

lemma utf8_ranking_env:
  "utf8_decode ranking_env bs =
     Inr (if bs = [1] then ''a'' else if bs = [2] then ''b''
          else if bs = [3] then ''c'' else ''d'')"
  by (simp add: ranking_env_def sample_env_def)

lemma file_entry_ranking:
  "file_entry ranking_env [1, 0] (ranking_file 1) = Inr (ranking_entry ''a'' 1)"
  "file_entry ranking_env [1, 0] (ranking_file 2) = Inr (ranking_entry ''b'' 0)"
  "file_entry ranking_env [1, 0] (ranking_file 3) = Inr (ranking_entry ''c'' (3/5))"
  "file_entry ranking_env [1, 0] (ranking_file 4) = Inr (ranking_entry ''d'' (- 1))"
  by (simp_all add: file_entry_def ranking_file_def strategy_cv_txt utf8_ranking_env
      embed_ranking_env float32_ranking_env cosine_similarity_def linalg_norm_def dot_def
      ranking_entry_def sqrt_25)

lemma ranking_request_fields:
  "session_user_id (ranking_request fs) = Some 1"
  "request_method (ranking_request fs) = ''POST''"
  "form_is_valid (ranking_request fs)"
  "POST_vacancy (ranking_request fs) = ''vacancy''"
  "FILES_getlist (ranking_request fs) ''file'' = fs"
  by (simp_all add: ranking_request_def sample_request_def FILES_getlist_def comp_def)

lemma strip_vacancy: "strip ''vacancy'' = ''vacancy''"
  by code_simp


theorem uploadCVS_ranking_witness:
  "session_user_id (ranking_request [ranking_file 1, ranking_file 2, ranking_file 3]) = Some 1
   \<and> get_user sample_state 1 = Inr sample_recruiter
   \<and> embed ranking_env ''vacancy'' = Inr [1, 0]
   \<and> map (file_entry ranking_env [1, 0]) [ranking_file 1, ranking_file 2, ranking_file 3]
       = map Inr [ranking_entry ''a'' 1, ranking_entry ''b'' 0, ranking_entry ''c'' (3/5)]
   \<and> fst (uploadCVS ranking_env
            (ranking_request [ranking_file 1, ranking_file 2, ranking_file 3]) sample_state)
       = Inr (RenderMatching
               [ranking_entry ''a'' 1, ranking_entry ''c'' (3/5), ranking_entry ''b'' 0]
               (Some (ranking_entry ''a'' 1)))"
proof -
  let ?fs = "[ranking_file 1, ranking_file 2, ranking_file 3]"
  let ?items = "[ranking_entry ''a'' 1, ranking_entry ''b'' 0, ranking_entry ''c'' (3/5)]"
  have h1: "session_user_id (ranking_request ?fs) = Some 1"
    by (rule ranking_request_fields)
  have h2: "get_user sample_state 1 = Inr sample_recruiter"
    by (rule sample_lookups)
  have h3: "request_method (ranking_request ?fs) = ''POST''"
    by (rule ranking_request_fields)
  have h4: "form_is_valid (ranking_request ?fs)"
    by (rule ranking_request_fields)
  have h5: "strip (POST_vacancy (ranking_request ?fs)) \<noteq> []"
    by (simp add: ranking_request_fields strip_vacancy)
  have h6: "FILES_getlist (ranking_request ?fs) ''file'' \<noteq> []"
    by (simp add: ranking_request_fields)
  have e: "embed ranking_env ''vacancy'' = Inr [1, 0]"
    by (simp add: embed_ranking_env)
  have h7: "embed ranking_env (POST_vacancy (ranking_request ?fs)) = Inr [1, 0]"
    by (simp add: ranking_request_fields e)
  have m: "map (file_entry ranking_env [1, 0]) ?fs = map Inr ?items"
    by (simp only: list.map file_entry_ranking)
  have h8: "map (file_entry ranking_env [1, 0]) (FILES_getlist (ranking_request ?fs) ''file'')
              = map Inr ?items"
    by (simp only: ranking_request_fields m)
  have srt: "sort_ranking ?items
               = [ranking_entry ''a'' 1, ranking_entry ''c'' (3/5), ranking_entry ''b'' 0]"
    by (simp add: sort_ranking_def ranking_entry_def)
  have sc: "e_score (ranking_entry ''a'' 1) = 1"
    by (simp add: ranking_entry_def)
  from uploadCVS_ranking [OF h1 h2 h3 h4 h5 h6 h7 h8]
  have "fst (uploadCVS ranking_env (ranking_request ?fs) sample_state)
       = Inr (RenderMatching
               [ranking_entry ''a'' 1, ranking_entry ''c'' (3/5), ranking_entry ''b'' 0]
               (Some (ranking_entry ''a'' 1)))"
    by (auto simp: srt sc)
  with h1 h2 e m show ?thesis by blast
qed


subsection \<open>Applying to a vacancy\<close>


lemma cosine_similarity_returns:
  "length a = length b \<Longrightarrow> \<exists>m. cosine_similarity a b = Inr m"
  by (simp add: cosine_similarity_def dot_def)

lemma apply_selected_stored:
  assumes "r_embedding resume \<noteq> []" "v_embedding vacancy \<noteq> []"
    and "length (r_embedding resume) mod 4 = 0"
    and "length (v_embedding vacancy) = length (r_embedding resume)"
  shows "\<exists>match. apply_selected env resume vacancy s
           = create_application resume vacancy match s"
proof -
  let ?a = "map (float32 env) (chunks4 (r_embedding resume))"
  let ?b = "map (float32 env) (chunks4 (v_embedding vacancy))"
  have "length ?a = length ?b" using assms(4) by (simp add: length_chunks4)
  then obtain m where m: "cosine_similarity ?a ?b = Inr m"
    using cosine_similarity_returns by blast
  have "apply_selected env resume vacancy s = create_application resume vacancy m s"
    using assms m
    by (simp add: apply_selected_def resume_emb_of_def vacancy_emb_of_def frombuffer32_def)
  then show ?thesis ..
qed

lemma apply_vacancy_selected:
  assumes "session_user_id request = Some uid"
    and "get_user s uid = Inr user"
    and "get_vacancy s vid = Inr vacancy"
    and "request_method request = ''POST''"
    and "POST_resume_id request = Id rid"
    and "find (\<lambda>r. int (r_id r) = rid)
           (filter (\<lambda>r. r_uploaded_by r = u_id user) (resumes s)) = Some resume"
  shows "apply_vacancy env request vid s = apply_selected env resume vacancy s"
proof -
  have "filter (\<lambda>r. r_uploaded_by r = u_id user) (resumes s) \<noteq> []"
    using assms(6) by auto
  then show ?thesis
    unfolding apply_vacancy_def
    by (simp add: assms)
qed

lemma create_application_first:
  assumes "filter (\<lambda>a. a_resume a = r_id resume \<and> a_vacancy a = v_id vacancy)
             (applied_resumes s) = []"
  shows "fst (create_application resume vacancy match s) = Inr (Redirect ''feed'')"
    and "users (fst (snd (create_application resume vacancy match s))) = users s"
    and "vacancies (fst (snd (create_application resume vacancy match s))) = vacancies s"
    and "resumes (fst (snd (create_application resume vacancy match s))) = resumes s"
    and "filter (\<lambda>a. a_resume a = r_id resume \<and> a_vacancy a = v_id vacancy)
           (applied_resumes (fst (snd (create_application resume vacancy match s))))
         = [\<lparr>a_id = new_id (map a_id (applied_resumes s)), a_resume = r_id resume,
              a_vacancy = v_id vacancy, a_match_rate = match, a_state = ''applied'',
              a_feedback = None\<rparr>]"
  using assms by (simp_all add: create_application_def)

lemma create_application_again:
  assumes "filter (\<lambda>a. a_resume a = r_id resume \<and> a_vacancy a = v_id vacancy)
             (applied_resumes s) \<noteq> []"
  shows "create_application resume vacancy match s =
           (Inr (Redirect ''feed''), s,
            [(Warning, ''Ya has aplicado a esta vacante con este CV'')])"
  using assms by (simp add: create_application_def)


text \<open>
  Claim C2.  A job seeker posts the selection of one of their own resumes R for a
  vacancy V whose stored embeddings decode to vectors of equal length, and no
  application of R to V exists yet.  Then \<open>apply_vacancy\<close> redirects to the feed and
  leaves exactly one \<open>Applied_resume\<close> for (R, V), in state \<open>applied\<close>.  A second such
  request is answered with the warning, changes nothing, and the number of records for
  (R, V) stays 1.
\<close>

theorem apply_vacancy_once:
  assumes "session_user_id request = Some uid"
    and "session_user_id request2 = Some uid"
    and "get_user s uid = Inr user"
    and "get_vacancy s vid = Inr vacancy"
    and "request_method request = ''POST''"
    and "request_method request2 = ''POST''"
    and "POST_resume_id request = Id rid"
    and "POST_resume_id request2 = Id rid"
    and "find (\<lambda>r. int (r_id r) = rid)
           (filter (\<lambda>r. r_uploaded_by r = u_id user) (resumes s)) = Some resume"
    and "r_embedding resume \<noteq> []"
    and "v_embedding vacancy \<noteq> []"
    and "length (r_embedding resume) mod 4 = 0"
    and "length (v_embedding vacancy) = length (r_embedding resume)"
    and "filter (\<lambda>a. a_resume a = r_id resume \<and> a_vacancy a = v_id vacancy)
           (applied_resumes s) = []"
  shows "fst (apply_vacancy env request vid s) = Inr (Redirect ''feed'')
       \<and> map a_state
           (filter (\<lambda>a. a_resume a = r_id resume \<and> a_vacancy a = v_id vacancy)
              (applied_resumes (fst (snd (apply_vacancy env request vid s)))))
         = [''applied'']
       \<and> apply_vacancy env request2 vid (fst (snd (apply_vacancy env request vid s)))
         = (Inr (Redirect ''feed''), fst (snd (apply_vacancy env request vid s)),
            [(Warning, ''Ya has aplicado a esta vacante con este CV'')])
       \<and> length
           (filter (\<lambda>a. a_resume a = r_id resume \<and> a_vacancy a = v_id vacancy)
              (applied_resumes
                 (fst (snd (apply_vacancy env request2 vid
                    (fst (snd (apply_vacancy env request vid s))))))))
         = 1"
proof -
  let ?pair = "\<lambda>a. a_resume a = r_id resume \<and> a_vacancy a = v_id vacancy"
  obtain m where sel: "apply_selected env resume vacancy s
                         = create_application resume vacancy m s"
    using apply_selected_stored [OF assms(10-13)] by blast
  have first: "apply_vacancy env request vid s = create_application resume vacancy m s"
    using apply_vacancy_selected [OF assms(1) assms(3) assms(4) assms(5) assms(7) assms(9)] sel
    by simp
  define s1 where "s1 = fst (snd (create_application resume vacancy m s))"
  note c = create_application_first [OF assms(14), of m, folded s1_def]
  have r1: "fst (apply_vacancy env request vid s) = Inr (Redirect ''feed'')"
    by (simp add: first c(1))
  have st1: "fst (snd (apply_vacancy env request vid s)) = s1"
    by (simp add: first s1_def)
  have one: "map a_state (filter ?pair (applied_resumes s1)) = [''applied'']"
    by (simp add: c(5))
  have u1: "get_user s1 uid = Inr user"
    using assms(3) c(2) by (simp add: get_user_def)
  have v1: "get_vacancy s1 vid = Inr vacancy"
    using assms(4) c(3) by (simp add: get_vacancy_def)
  have f1: "find (\<lambda>r. int (r_id r) = rid)
              (filter (\<lambda>r. r_uploaded_by r = u_id user) (resumes s1)) = Some resume"
    using assms(9) c(4) by simp
  obtain m2 where sel2: "apply_selected env resume vacancy s1
                           = create_application resume vacancy m2 s1"
    using apply_selected_stored [OF assms(10-13)] by blast
  have ne: "filter ?pair (applied_resumes s1) \<noteq> []"
    by (simp add: c(5))
  have second: "apply_vacancy env request2 vid s1
                  = (Inr (Redirect ''feed''), s1,
                     [(Warning, ''Ya has aplicado a esta vacante con este CV'')])"
    using apply_vacancy_selected [OF assms(2) u1 v1 assms(6) assms(8) f1] sel2
      create_application_again [OF ne]
    by simp
  have len: "length (filter ?pair (applied_resumes s1)) = 1"
    by (simp add: c(5))
  show ?thesis
    unfolding st1 second
    using r1 one len by simp
qed


theorem apply_vacancy_once_witness:
  "session_user_id (sample_request 2) = Some 2
   \<and> get_user sample_state 2 = Inr sample_jobseeker
   \<and> get_vacancy sample_state 1 = Inr sample_vacancy
   \<and> find (\<lambda>r. int (r_id r) = 1)
        (filter (\<lambda>r. r_uploaded_by r = u_id sample_jobseeker) (resumes sample_state))
       = Some sample_resume
   \<and> length (r_embedding sample_resume) = 4
   \<and> length (v_embedding sample_vacancy) = 4
   \<and> applied_resumes sample_state = []
   \<and> fst (apply_vacancy sample_env (sample_request 2) 1 sample_state) = Inr (Redirect ''feed'')
   \<and> map a_state
        (filter (\<lambda>a. a_resume a = r_id sample_resume \<and> a_vacancy a = v_id sample_vacancy)
           (applied_resumes (fst (snd (apply_vacancy sample_env (sample_request 2) 1 sample_state)))))
       = [''applied'']
   \<and> length
        (filter (\<lambda>a. a_resume a = r_id sample_resume \<and> a_vacancy a = v_id sample_vacancy)
           (applied_resumes
              (fst (snd (apply_vacancy sample_env (sample_request 2) 1
                 (fst (snd (apply_vacancy sample_env (sample_request 2) 1 sample_state))))))))
       = 1"
proof -
  have h1: "session_user_id (sample_request 2) = Some 2"
    by (simp add: sample_request_def)
  have h3: "get_user sample_state 2 = Inr sample_jobseeker"
    by (rule sample_lookups)
  have h4: "get_vacancy sample_state 1 = Inr sample_vacancy"
    by (rule sample_lookups)
  have h5: "request_method (sample_request 2) = ''POST''"
    by (simp add: sample_request_def)
  have h7: "POST_resume_id (sample_request 2) = Id 1"
    by (simp add: sample_request_def)
  have h9: "find (\<lambda>r. int (r_id r) = 1)
        (filter (\<lambda>r. r_uploaded_by r = u_id sample_jobseeker) (resumes sample_state))
       = Some sample_resume"
    by (simp add: sample_state_def sample_resume_def sample_jobseeker_def)
  have lr: "length (r_embedding sample_resume) = 4"
    by (simp add: sample_resume_def)
  have lv: "length (v_embedding sample_vacancy) = 4"
    by (simp add: sample_vacancy_def)
  have h10: "r_embedding sample_resume \<noteq> []" using lr by auto
  have h11: "v_embedding sample_vacancy \<noteq> []" using lv by auto
  have h12: "length (r_embedding sample_resume) mod 4 = 0" by (simp add: lr)
  have h13: "length (v_embedding sample_vacancy) = length (r_embedding sample_resume)"
    by (simp add: lr lv)
  have ap: "applied_resumes sample_state = []"
    by (simp add: sample_state_def)
  have h14: "filter (\<lambda>a. a_resume a = r_id sample_resume \<and> a_vacancy a = v_id sample_vacancy)
           (applied_resumes sample_state) = []"
    by (simp add: ap)
  note inst = apply_vacancy_once [OF h1 h1 h3 h4 h5 h5 h7 h7 h9 h10 h11 h12 h13 h14,
      of sample_env]
  from inst h1 h3 h4 h9 lr lv ap show ?thesis
    by blast
qed

subsection \<open>Improving a CV\<close>


lemma hosted_rewrite_failure:
  "chat_completion env prompt = Inl e \<Longrightarrow>
     hosted_rewrite env prompt cv_text =
       (cv_text,
        [(Warning, ''No se pudo acceder al servicio de IA, se mostrar'' @ CHR 0xE1
                     # '' el CV original.'')])"
  by (simp add: hosted_rewrite_def)

lemma mejorar_cv_falls_back:
  assumes "session_user_id request = Some uid"
    and "get_user s uid = Inr user"
    and "filter (\<lambda>r. r_uploaded_by r = u_id user) (resumes s) = r # rs"
    and "chat_completion env
           (build_prompt env (r_vacancy_text (last (r # rs))) (r_extracted_text (last (r # rs))))
         = Inl e"
  shows "mejorar_cv env request s =
           (respond_improved env request (r_extracted_text (last (r # rs))),
            save_resume s ((last (r # rs))\<lparr>r_upgraded_cv := r_extracted_text (last (r # rs))\<rparr>),
            [(Warning, ''No se pudo acceder al servicio de IA, se mostrar'' @ CHR 0xE1
                         # '' el CV original.'')])"
  unfolding mejorar_cv_def
  by (simp add: assms(1-3) hosted_rewrite_failure [OF assms(4)] Let_def del: last.simps)

lemma find_map_replace_resume:
  "find (\<lambda>x. r_id x = i) (map (\<lambda>x. if r_id x = r_id r then r else x) xs) =
     (if r_id r = i then map_option (\<lambda>_. r) (find (\<lambda>x. r_id x = i) xs)
      else find (\<lambda>x. r_id x = i) xs)"
  by (induction xs) auto

lemma get_resume_save_resume:
  assumes "x \<in> set (resumes s)" "r_id x = r_id r"
  shows "get_resume (save_resume s r) (r_id r) = Inr r"
proof -
  from assms obtain y where "find (\<lambda>z. r_id z = r_id r) (resumes s) = Some y"
    by (cases "find (\<lambda>z. r_id z = r_id r) (resumes s)") (auto simp: find_None_iff)
  then show ?thesis
    by (simp add: get_resume_def save_resume_def find_map_replace_resume)
qed

text \<open>
  Claim C7, as the code has it.  When the hosted chat call raises, whatever the
  exception, \<open>mejorar_cv\<close> catches it: the original extracted text is saved as the
  upgraded text of the user's latest resume, the degraded-service warning is queued, and
  the handler goes on to answer from that text (the page, or the posted download format)
  as it does after a successful call.
\<close>

theorem mejorar_cv_fallback:
  assumes "session_user_id request = Some uid"
    and "get_user s uid = Inr user"
    and "filter (\<lambda>r. r_uploaded_by r = u_id user) (resumes s) = r # rs"
    and "chat_completion env
           (build_prompt env (r_vacancy_text (last (r # rs))) (r_extracted_text (last (r # rs))))
         = Inl e"
  shows "mejorar_cv env request s =
           (respond_improved env request (r_extracted_text (last (r # rs))),
            save_resume s ((last (r # rs))\<lparr>r_upgraded_cv := r_extracted_text (last (r # rs))\<rparr>),
            [(Warning, ''No se pudo acceder al servicio de IA, se mostrar'' @ CHR 0xE1
                         # '' el CV original.'')])
       \<and> get_resume (fst (snd (mejorar_cv env request s))) (r_id (last (r # rs)))
           = Inr ((last (r # rs))\<lparr>r_upgraded_cv := r_extracted_text (last (r # rs))\<rparr>)"
proof -
  let ?cv = "last (r # rs)"
  have res: "mejorar_cv env request s =
           (respond_improved env request (r_extracted_text ?cv),
            save_resume s (?cv\<lparr>r_upgraded_cv := r_extracted_text ?cv\<rparr>),
            [(Warning, ''No se pudo acceder al servicio de IA, se mostrar'' @ CHR 0xE1
                         # '' el CV original.'')])"
    by (rule mejorar_cv_falls_back [OF assms])
  have "?cv \<in> set (r # rs)" by (rule last_in_set) simp
  also have "set (r # rs) \<subseteq> set (resumes s)"
    using assms(3) by (metis filter_is_subset)
  finally have mem: "?cv \<in> set (resumes s)" .
  have "get_resume (save_resume s (?cv\<lparr>r_upgraded_cv := r_extracted_text ?cv\<rparr>))
          (r_id (?cv\<lparr>r_upgraded_cv := r_extracted_text ?cv\<rparr>))
          = Inr (?cv\<lparr>r_upgraded_cv := r_extracted_text ?cv\<rparr>)"
    by (rule get_resume_save_resume [OF mem]) simp
  then have "get_resume (fst (snd (mejorar_cv env request s))) (r_id ?cv)
            = Inr (?cv\<lparr>r_upgraded_cv := r_extracted_text ?cv\<rparr>)"
    by (simp add: res del: last.simps)
  with res show ?thesis by (rule conjI)
qed

lemma formfeed_refused:
  "docx_add_paragraph sample_env (''Page one'' @ CHR 0x0C # ''Page two'') = Inl ValueError"
proof -
  have "list_ex xml_control (''Page one'' @ CHR 0x0C # ''Page two'')"
    by code_simp
  then show ?thesis by (simp add: sample_env_def)
qed

lemma formfeed_lookups:
  "session_user_id docx_request = Some 2"
  "request_method docx_request = ''POST''"
  "form_is_valid docx_request"
  "cleaned_data docx_request ''outputFormat'' = ''docx''"
  "get_user formfeed_state 2 = Inr sample_jobseeker"
  "filter (\<lambda>r. r_uploaded_by r = u_id sample_jobseeker) (resumes formfeed_state)
     = [sample_resume\<lparr>r_extracted_text := ''Page one'' @ CHR 0x0C # ''Page two''\<rparr>]"
  by (simp_all add: docx_request_def sample_request_def formfeed_state_def sample_state_def
      get_user_def sample_recruiter_def sample_jobseeker_def sample_resume_def)

lemma sample_chat_fails: "chat_completion sample_env p = Inl ImportError"
  by (simp add: sample_env_def)

lemma mejorar_cv_docx_formfeed:
  "fst (mejorar_cv sample_env docx_request formfeed_state) = Inl ValueError"
proof -
  let ?cv = "sample_resume\<lparr>r_extracted_text := ''Page one'' @ CHR 0x0C # ''Page two''\<rparr>"
  have t: "r_extracted_text (last [?cv]) = ''Page one'' @ CHR 0x0C # ''Page two''"
    by simp
  have "respond_improved sample_env docx_request (''Page one'' @ CHR 0x0C # ''Page two'')
          = Inl ValueError"
    unfolding respond_improved_def generate_docx_response_def
    by (simp only: formfeed_lookups formfeed_refused Let_def if_True if_False sum.case)
      (simp)
  then show ?thesis
    using mejorar_cv_falls_back [OF formfeed_lookups(1) formfeed_lookups(5) formfeed_lookups(6)
        sample_chat_fails]
    by (simp only: t fst_conv)
qed

theorem mejorar_cv_fallback_witness:
  "session_user_id (sample_request 2) = Some 2
   \<and> get_user sample_state 2 = Inr sample_jobseeker
   \<and> filter (\<lambda>r. r_uploaded_by r = u_id sample_jobseeker) (resumes sample_state)
       = [sample_resume]
   \<and> chat_completion sample_env
        (build_prompt sample_env (r_vacancy_text sample_resume) (r_extracted_text sample_resume))
       = Inl ImportError
   \<and> get_resume (fst (snd (mejorar_cv sample_env (sample_request 2) sample_state))) 1
       = Inr (sample_resume\<lparr>r_upgraded_cv := ''Experienced backend engineer''\<rparr>)
   \<and> snd (snd (mejorar_cv sample_env (sample_request 2) sample_state))
       = [(Warning, ''No se pudo acceder al servicio de IA, se mostrar'' @ CHR 0xE1
                      # '' el CV original.'')]
   \<and> fst (mejorar_cv sample_env (sample_request 2) sample_state)
       = Inr (Render ''jobseekerPage.html'')"
proof -
  have h1: "session_user_id (sample_request 2) = Some 2"
    by (simp add: sample_request_def)
  have h2: "get_user sample_state 2 = Inr sample_jobseeker"
    by (rule sample_lookups)
  have h3: "filter (\<lambda>r. r_uploaded_by r = u_id sample_jobseeker) (resumes sample_state)
       = [sample_resume]"
    by (simp add: sample_state_def sample_resume_def sample_jobseeker_def)
  have h4: "chat_completion sample_env
        (build_prompt sample_env (r_vacancy_text (last [sample_resume]))
           (r_extracted_text (last [sample_resume])))
       = Inl ImportError"
    by (rule sample_chat_fails)
  have h4': "chat_completion sample_env
        (build_prompt sample_env (r_vacancy_text sample_resume) (r_extracted_text sample_resume))
       = Inl ImportError"
    by (rule sample_chat_fails)
  note inst = mejorar_cv_fallback [OF h1 h2 h3 h4]
  from inst have a: "get_resume
       (fst (snd (mejorar_cv sample_env (sample_request 2) sample_state)))
       (r_id (last [sample_resume]))
       = Inr ((last [sample_resume])\<lparr>r_upgraded_cv := r_extracted_text (last [sample_resume])\<rparr>)"
    by blast
  have a': "get_resume (fst (snd (mejorar_cv sample_env (sample_request 2) sample_state))) 1
       = Inr (sample_resume\<lparr>r_upgraded_cv := ''Experienced backend engineer''\<rparr>)"
    using a by (simp add: sample_resume_def)
  from inst have m: "snd (snd (mejorar_cv sample_env (sample_request 2) sample_state))
       = [(Warning, ''No se pudo acceder al servicio de IA, se mostrar'' @ CHR 0xE1
                      # '' el CV original.'')]"
    by simp
  have page: "respond_improved sample_env (sample_request 2)
                (r_extracted_text (last [sample_resume])) = Inr (Render ''jobseekerPage.html'')"
    by (simp add: respond_improved_def sample_request_def)
  from inst have r: "fst (mejorar_cv sample_env (sample_request 2) sample_state)
       = Inr (Render ''jobseekerPage.html'')"
    by (simp only: page fst_conv)
  from h1 h2 h3 h4' a' m r show ?thesis by blast
qed

text \<open>
  The claim as stated, that with the credential unset the request completes for every
  input, fails: the fallback text of a resume holding a form feed, posted for download
  as a Word document, is refused by the Word library, and its \<open>ValueError\<close> leaves the
  handler.
\<close>

theorem mejorar_cv_docx_raises:
  "OPENAI_API_KEY sample_env = None
   \<and> fst (mejorar_cv sample_env docx_request formfeed_state) = Inl ValueError"
  using mejorar_cv_docx_formfeed by (simp add: sample_env_def)

subsection \<open>Stored embeddings are never empty\<close>


lemma tobytes32_nonempty: "vec \<noteq> [] \<Longrightarrow> tobytes32 vec \<noteq> []"
  using length_tobytes32 [of vec] by (cases vec) auto

lemma present_frame:
  "embeddings_present s \<Longrightarrow> resumes s' = resumes s \<Longrightarrow> vacancies s' = vacancies s
     \<Longrightarrow> embeddings_present s'"
  by (simp add: embeddings_present_def)

lemma present_save_resume:
  "embeddings_present s \<Longrightarrow> r_embedding r \<noteq> [] \<Longrightarrow> embeddings_present (save_resume s r)"
  by (auto simp: embeddings_present_def save_resume_def list_all_iff)

lemma present_save_vacancy:
  "embeddings_present s \<Longrightarrow> v_embedding v \<noteq> [] \<Longrightarrow> embeddings_present (save_vacancy s v)"
  by (auto simp: embeddings_present_def save_vacancy_def list_all_iff)

lemma present_resume:
  "embeddings_present s \<Longrightarrow> r \<in> set (resumes s) \<Longrightarrow> r_embedding r \<noteq> []"
  by (auto simp: embeddings_present_def list_all_iff)

lemma present_vacancy:
  "embeddings_present s \<Longrightarrow> v \<in> set (vacancies s) \<Longrightarrow> v_embedding v \<noteq> []"
  by (auto simp: embeddings_present_def list_all_iff)

lemma get_vacancy_mem: "get_vacancy s i = Inr v \<Longrightarrow> v \<in> set (vacancies s)"
  by (auto simp: get_vacancy_def find_Some_iff split: option.splits)

lemma find_mem: "find P xs = Some x \<Longrightarrow> x \<in> set xs"
  by (auto simp: find_Some_iff)

lemma uploadCV_create_present:
  assumes "\<forall>t v. embed env t = Inr v \<longrightarrow> v \<noteq> []" "embeddings_present s"
  shows "embeddings_present (fst (snd (uploadCV_create env request user name text s)))"
proof (cases "embed env text")
  case (Inl e)
  with assms(2) show ?thesis by (simp add: uploadCV_create_def)
next
  case (Inr vec)
  with assms(1) have "vec \<noteq> []" by blast
  then have "tobytes32 vec \<noteq> []" by (rule tobytes32_nonempty)
  with Inr assms(2) show ?thesis
    by (simp add: uploadCV_create_def embeddings_present_def)
qed

lemma uploadCV_present:
  assumes "\<forall>t v. embed env t = Inr v \<longrightarrow> v \<noteq> []" "embeddings_present s"
  shows "embeddings_present (fst (snd (uploadCV env request s)))"
  unfolding uploadCV_def
  by (simp add: assms(2) uploadCV_create_present [OF assms] split: option.split sum.split)

lemma mejorar_cv_present:
  assumes "embeddings_present s"
  shows "embeddings_present (fst (snd (mejorar_cv env request s)))"
proof (cases "session_user_id request")
  case None
  with assms show ?thesis by (simp add: mejorar_cv_def)
next
  case (Some uid)
  show ?thesis
  proof (cases "get_user s uid")
    case (Inl e)
    with Some assms show ?thesis by (simp add: mejorar_cv_def)
  next
    case (Inr user)
    show ?thesis
    proof (cases "filter (\<lambda>r. r_uploaded_by r = u_id user) (resumes s)")
      case Nil
      with Some Inr assms show ?thesis by (simp add: mejorar_cv_def)
    next
      case (Cons r rs)
      let ?cv = "last (r # rs)"
      have "?cv \<in> set (r # rs)" by (rule last_in_set) simp
      also have "set (r # rs) \<subseteq> set (resumes s)"
        using Cons by (metis filter_is_subset)
      finally have "r_embedding ?cv \<noteq> []" using assms by (rule present_resume [rotated])
      then have sv: "\<And>x. embeddings_present (save_resume s (?cv\<lparr>r_upgraded_cv := x\<rparr>))"
        using assms by (intro present_save_resume) simp_all
      obtain new_cv msgs where h: "hosted_rewrite env
          (build_prompt env (r_vacancy_text ?cv) (r_extracted_text ?cv))
          (r_extracted_text ?cv) = (new_cv, msgs)"
        by (cases "hosted_rewrite env
          (build_prompt env (r_vacancy_text ?cv) (r_extracted_text ?cv))
          (r_extracted_text ?cv)") auto
      show ?thesis
        unfolding mejorar_cv_def
        by (simp add: Some Inr Cons h Let_def sv del: last.simps)
    qed
  qed
qed

lemma delete_cv_present:
  assumes "embeddings_present s"
  shows "embeddings_present (fst (snd (delete_cv request cv_id s)))"
  using assms unfolding delete_cv_def
  by (auto simp: embeddings_present_def list_all_iff split: option.split sum.split)

lemma upload_vacancies_present:
  assumes "\<forall>t v. embed env t = Inr v \<longrightarrow> v \<noteq> []" "embeddings_present s"
  shows "embeddings_present (fst (snd (upload_vacancies env request s)))"
proof -
  have new: "\<And>t vec. embed env t = Inr vec \<Longrightarrow> tobytes32 vec \<noteq> []"
    using assms(1) tobytes32_nonempty by blast
  show ?thesis
    using assms(2) unfolding upload_vacancies_def
    by (auto simp: embeddings_present_def Let_def new split: option.split sum.split)
qed

lemma change_state_vacancy_present:
  assumes "embeddings_present s"
  shows "embeddings_present (fst (snd (change_state_vacancy request vid s)))"
proof -
  have "\<And>v x. get_vacancy s vid = Inr v
          \<Longrightarrow> embeddings_present (save_vacancy s (v\<lparr>v_state := x\<rparr>))"
    using assms by (intro present_save_vacancy) (auto dest: get_vacancy_mem present_vacancy)
  then show ?thesis
    using assms unfolding change_state_vacancy_def
    by (simp split: option.split sum.split)
qed


lemma resume_emb_of_stored:
  "r_embedding r \<noteq> [] \<Longrightarrow>
     resume_emb_of env r t =
       (case frombuffer32 (r_embedding r) of Inl e \<Rightarrow> Inl e | Inr x \<Rightarrow> Inr (x, t))"
  by (simp add: resume_emb_of_def)

lemma vacancy_emb_of_stored:
  "v_embedding v \<noteq> [] \<Longrightarrow>
     vacancy_emb_of env v t =
       (case frombuffer32 (v_embedding v) of Inl e \<Rightarrow> Inl e | Inr x \<Rightarrow> Inr (x, t))"
  by (simp add: vacancy_emb_of_def)

lemma create_application_tables:
  "resumes (fst (snd (create_application r v m s))) = resumes s"
  "vacancies (fst (snd (create_application r v m s))) = vacancies s"
  by (simp_all add: create_application_def)

lemma apply_selected_stored_tables:
  assumes "r_embedding r \<noteq> []" "v_embedding v \<noteq> []"
  shows "resumes (fst (snd (apply_selected env r v s))) = resumes s"
    and "vacancies (fst (snd (apply_selected env r v s))) = vacancies s"
  unfolding apply_selected_def
  by (simp_all add: resume_emb_of_stored [OF assms(1)] vacancy_emb_of_stored [OF assms(2)]
      create_application_tables split: sum.split)

lemma apply_vacancy_tables:
  assumes "embeddings_present s"
  shows "resumes (fst (snd (apply_vacancy env request vid s))) = resumes s
       \<and> vacancies (fst (snd (apply_vacancy env request vid s))) = vacancies s"
proof -
  have sel: "\<And>user v i r. get_vacancy s vid = Inr v \<Longrightarrow>
      find (\<lambda>r. int (r_id r) = i)
        (filter (\<lambda>r. r_uploaded_by r = u_id user) (resumes s)) = Some r \<Longrightarrow>
      resumes (fst (snd (apply_selected env r v s))) = resumes s
      \<and> vacancies (fst (snd (apply_selected env r v s))) = vacancies s"
  proof -
    fix user v i r
    assume v: "get_vacancy s vid = Inr v"
      and r: "find (\<lambda>r. int (r_id r) = i)
        (filter (\<lambda>r. r_uploaded_by r = u_id user) (resumes s)) = Some r"
    from r have "r \<in> set (filter (\<lambda>r. r_uploaded_by r = u_id user) (resumes s))"
      by (rule find_mem)
    then have "r \<in> set (resumes s)" by simp
    then have re: "r_embedding r \<noteq> []" using assms by (rule present_resume [rotated])
    have ve: "v_embedding v \<noteq> []"
      using assms get_vacancy_mem [OF v] by (rule present_vacancy)
    show "resumes (fst (snd (apply_selected env r v s))) = resumes s
      \<and> vacancies (fst (snd (apply_selected env r v s))) = vacancies s"
      using apply_selected_stored_tables [OF re ve] by simp
  qed
  show ?thesis
    unfolding apply_vacancy_def
    by (simp add: sel split: option.split sum.split post_id.split)
qed

lemma apply_vacancy_present:
  assumes "embeddings_present s"
  shows "embeddings_present (fst (snd (apply_vacancy env request vid s)))"
  using apply_vacancy_tables [OF assms] assms by (blast intro: present_frame)

lemma decide_and_notify_tables:
  "resumes (fst (snd (decide_and_notify a st text done s))) = resumes s"
  "vacancies (fst (snd (decide_and_notify a st text done s))) = vacancies s"
  by (simp_all add: decide_and_notify_def Let_def notify_tables save_applied_resume_def
      split: sum.split)

lemma accept_resume_tables:
  "resumes (fst (snd (accept_resume request rid s))) = resumes s"
  "vacancies (fst (snd (accept_resume request rid s))) = vacancies s"
  unfolding accept_resume_def
  by (simp_all add: decide_and_notify_tables split: option.split sum.split)

lemma reject_resume_tables:
  "resumes (fst (snd (reject_resume request rid s))) = resumes s"
  "vacancies (fst (snd (reject_resume request rid s))) = vacancies s"
  unfolding reject_resume_def
  by (simp_all add: decide_and_notify_tables split: option.split sum.split)

lemma reachable_present:
  assumes "\<forall>t v. embed env t = Inr v \<longrightarrow> v \<noteq> []" and "reachable env s"
  shows "embeddings_present s"
  using assms(2)
proof (induction rule: reachable.induct)
  case (initial s)
  then show ?case by (simp add: embeddings_present_def)
next
  case (step_uploadCV s request)
  then show ?case by (simp add: uploadCV_present assms(1))
next
  case (step_mejorar_cv s request)
  then show ?case by (simp add: mejorar_cv_present)
next
  case (step_apply_vacancy s request vacancy_id)
  then show ?case by (simp add: apply_vacancy_present)
next
  case (step_delete_cv s request cv_id)
  then show ?case by (simp add: delete_cv_present)
next
  case (step_upload_vacancies s request)
  then show ?case by (simp add: upload_vacancies_present assms(1))
next
  case (step_change_state_vacancy s request vacancy_id)
  then show ?case by (simp add: change_state_vacancy_present)
next
  case (step_accept_resume s request resume_id)
  then show ?case by (blast intro: present_frame accept_resume_tables)
next
  case (step_reject_resume s request resume_id)
  then show ?case by (blast intro: present_frame reject_resume_tables)
next
  case (step_other s s')
  then show ?case by (blast intro: present_frame)
qed

text \<open>
  Claim C10.  Provided the embedding service never returns an empty vector (the mock
  returns 1536 elements, the hosted model a vector of its fixed dimension), every resume
  and every vacancy of a reachable state has a non-empty embedding blob.  Hence for the
  rows of such a state the two embedding computations of \<open>apply_vacancy\<close> decode the
  stored blob and write nothing back, and \<open>apply_vacancy\<close> leaves the \<open>Resume\<close> and
  \<open>Vacancy\<close> tables as they are.
\<close>

theorem backfill_unreachable:
  assumes "\<forall>t v. embed env t = Inr v \<longrightarrow> v \<noteq> []" and "reachable env s"
  shows "(\<forall>r\<in>set (resumes s). r_embedding r \<noteq> []
            \<and> (\<forall>t. resume_emb_of env r t =
                  (case frombuffer32 (r_embedding r) of
                     Inl e \<Rightarrow> Inl e | Inr x \<Rightarrow> Inr (x, t))))
       \<and> (\<forall>v\<in>set (vacancies s). v_embedding v \<noteq> []
            \<and> (\<forall>t. vacancy_emb_of env v t =
                  (case frombuffer32 (v_embedding v) of
                     Inl e \<Rightarrow> Inl e | Inr x \<Rightarrow> Inr (x, t))))
       \<and> resumes (fst (snd (apply_vacancy env request vid s))) = resumes s
       \<and> vacancies (fst (snd (apply_vacancy env request vid s))) = vacancies s"
proof -
  have p: "embeddings_present s" using assms by (rule reachable_present)
  show ?thesis
    using apply_vacancy_tables [OF p, of env request vid]
    by (auto dest: present_resume [OF p] present_vacancy [OF p]
        simp: resume_emb_of_stored vacancy_emb_of_stored)
qed


lemma mock_embed_nonempty:
  "service_embed env (MockEmbeddingService d) t = Inr v \<Longrightarrow> 0 < d \<Longrightarrow> v \<noteq> []"
  by auto

text \<open>Without a credential the mock service is selected, and its vectors have 1536
  elements.\<close>

lemma embed_without_key_nonempty:
  assumes "OPENAI_API_KEY env = None" "embed env t = Inr v"
  shows "v \<noteq> []"
proof -
  have "embedding_service_of env = MockEmbeddingService 1536"
    using assms(1) by (simp add: embedding_service_of_def)
  with assms(2) have "service_embed env (MockEmbeddingService 1536) t = Inr v"
    by (simp add: embed_def)
  then show "v \<noteq> []" by (rule mock_embed_nonempty) simp
qed

lemma embed_sample_env_nonempty: "embed sample_env t = Inr v \<Longrightarrow> v \<noteq> []"
  by (rule embed_without_key_nonempty [of sample_env]) (simp_all add: sample_env_def)

lemma embed_sample_env_returns: "\<exists>v. embed sample_env t = Inr v"
  by (simp add: embed_def embedding_service_of_def sample_env_def del: upt_rec_numeral)

lemma upload_vacancies_creates:
  assumes "session_user_id request = Some uid"
    and "get_user s uid = Inr user"
    and "request_method request = ''POST''"
    and "form_is_valid request"
    and "embed env (strip (cleaned_data request ''description'' @ '' ''
                            @ cleaned_data request ''requirements'')) = Inr vec"
  shows "length (vacancies (fst (snd (upload_vacancies env request s))))
           = Suc (length (vacancies s))"
  using assms unfolding upload_vacancies_def
  by (simp add: Let_def)

lemma sample_posted_vacancies: "length (vacancies sample_posted) = 1"
proof -
  have u: "get_user sample_empty 1 = Inr sample_recruiter"
    by (simp add: get_user_def sample_empty_def sample_state_def sample_recruiter_def)
  obtain v where e: "embed sample_env
      (strip (cleaned_data (sample_request 1) ''description'' @ '' ''
              @ cleaned_data (sample_request 1) ''requirements'')) = Inr v"
    using embed_sample_env_returns by blast
  have r: "session_user_id (sample_request 1) = Some 1"
      "request_method (sample_request 1) = ''POST''"
      "form_is_valid (sample_request 1)"
    by (simp_all add: sample_request_def)
  have "vacancies sample_empty = []"
    by (simp add: sample_empty_def)
  then show ?thesis
    unfolding sample_posted_def
    using upload_vacancies_creates [OF r(1) u r(2) r(3) e] by simp
qed

theorem backfill_unreachable_witness:
  "reachable sample_env sample_posted
   \<and> length (vacancies sample_posted) = 1
   \<and> list_all (\<lambda>v. v_embedding v \<noteq> []) (vacancies sample_posted)
   \<and> vacancies (fst (snd (apply_vacancy sample_env (sample_request 2) 1 sample_posted)))
       = vacancies sample_posted"
proof -
  have env: "\<forall>t v. embed sample_env t = Inr v \<longrightarrow> v \<noteq> []"
    using embed_sample_env_nonempty by blast
  have "resumes sample_empty = []" "vacancies sample_empty = []"
    by (simp_all add: sample_empty_def)
  then have "reachable sample_env sample_empty"
    by (rule reachable.initial)
  then have reach: "reachable sample_env sample_posted"
    unfolding sample_posted_def by (rule reachable.step_upload_vacancies)
  note inst = backfill_unreachable [OF env reach, of "sample_request 2" 1]
  from inst have "\<forall>v\<in>set (vacancies sample_posted). v_embedding v \<noteq> []"
    by blast
  then have all: "list_all (\<lambda>v. v_embedding v \<noteq> []) (vacancies sample_posted)"
    by (simp add: list_all_iff)
  from inst have same: "vacancies (fst (snd (apply_vacancy sample_env (sample_request 2) 1
      sample_posted))) = vacancies sample_posted"
    by blast
  from reach sample_posted_vacancies all same show ?thesis by blast
qed

end
